theory Spec2Isabelle
  imports Main "HOL-Library.Sublist" "HOL-Library.AList" "HOL-Library.Word"
begin

section \<open>Strings as the C++ code uses them\<close>

text \<open>
  A \<^verbatim>\<open>std::string\<close> or \<^verbatim>\<open>std::string_view\<close> is a list of bytes. The helpers below are the
  members of \<^verbatim>\<open>std::string\<close> that the server calls; \<^verbatim>\<open>npos\<close> is \<open>None\<close>.
\<close>

definition CRLF :: string where
  "CRLF = [CHR 0x0D, CHR 0x0A]"

definition CRLFCRLF :: string where
  "CRLFCRLF = [CHR 0x0D, CHR 0x0A, CHR 0x0D, CHR 0x0A]"

text \<open>\<^verbatim>\<open>s.find(pat)\<close>: the first index at which \<open>pat\<close> occurs in \<open>s\<close>.\<close>

fun find_sub :: "string \<Rightarrow> string \<Rightarrow> nat option" where
  "find_sub pat [] = (if pat = [] then Some 0 else None)"
| "find_sub pat (x # xs) =
     (if prefix pat (x # xs) then Some 0 else map_option Suc (find_sub pat xs))"

text \<open>\<^verbatim>\<open>s.find(pat, pos)\<close>: the search starts at \<open>pos\<close>; a start past the end finds nothing.\<close>

definition find_from :: "string \<Rightarrow> string \<Rightarrow> nat \<Rightarrow> nat option" where
  "find_from pat s pos =
     (if length s < pos then None
      else map_option (\<lambda>i. i + pos) (find_sub pat (drop pos s)))"

text \<open>
  \<^verbatim>\<open>s.substr(pos, n)\<close> and \<^verbatim>\<open>s.substr(pos)\<close>. The C++ members throw when \<open>pos\<close> is past the end;
  every call site of the server passes a position that was found inside the string (or is guarded
  by a comparison with the size), so only the in-range behaviour is modelled.
\<close>

definition substr :: "string \<Rightarrow> nat \<Rightarrow> nat \<Rightarrow> string" where
  "substr s pos n = take n (drop pos s)"

definition substr_from :: "string \<Rightarrow> nat \<Rightarrow> string" where
  "substr_from s pos = drop pos s"

text \<open>\<^verbatim>\<open>s.find_first_not_of(" ", pos)\<close>.\<close>

fun first_not_space :: "string \<Rightarrow> nat option" where
  "first_not_space [] = None"
| "first_not_space (c # cs) =
     (if c = CHR '' '' then map_option Suc (first_not_space cs) else Some 0)"

definition find_first_not_of_space :: "string \<Rightarrow> nat \<Rightarrow> nat option" where
  "find_first_not_of_space s pos =
     (if length s \<le> pos then None
      else map_option (\<lambda>i. i + pos) (first_not_space (drop pos s)))"

text \<open>\<^verbatim>\<open>s.find_last_of(c)\<close>: the last index holding the character \<open>c\<close>.\<close>

fun find_last_of :: "char \<Rightarrow> string \<Rightarrow> nat option" where
  "find_last_of c [] = None"
| "find_last_of c (x # xs) =
     (case find_last_of c xs of
        Some i \<Rightarrow> Some (Suc i)
      | None \<Rightarrow> (if x = c then Some 0 else None))"

text \<open>\<^verbatim>\<open>std::to_string\<close> on an unsigned value: its decimal digits.\<close>

definition digit_char :: "nat \<Rightarrow> char" where
  "digit_char d = ''0123456789'' ! d"

fun to_string :: "nat \<Rightarrow> string" where
  "to_string n = (if n < 10 then [digit_char n] else to_string (n div 10) @ [digit_char (n mod 10)])"

declare to_string.simps [simp del]

text \<open>\<^verbatim>\<open>std::tolower\<close> on one byte (C locale): only \<open>A\<close> to \<open>Z\<close> change.\<close>

definition toLower_char :: "char \<Rightarrow> char" where
  "toLower_char c =
     (if (65::nat) \<le> of_char c \<and> of_char c \<le> (90::nat)
      then (case c of Char b0 b1 b2 b3 b4 b5 b6 b7 \<Rightarrow> Char b0 b1 b2 b3 b4 True b6 b7)
      else c)"

definition toLower :: "string \<Rightarrow> string" where
  "toLower s = map toLower_char s"


section \<open>Status codes, methods and media types\<close>

text \<open>
  Modelled from the spec: \<^verbatim>\<open>http_status.hpp\<close> is not among the sources. The spec lists the
  supported codes with their exact reason phrases: 200 OK; 400 Bad Request; 403 Forbidden;
  404 Not Found; 415 Unsupported Media Type; 500 Internal Server Error; 501 Not Implemented.
  (The sources also mention a sentinel \<^verbatim>\<open>Code::INVALID\<close>, returned by
  \<^verbatim>\<open>ResponseResult::getError\<close> only when the result holds no error; the model's result type is a
  sum, so the sentinel never arises.)
\<close>

datatype Code =
    OK
  | BAD_REQUEST
  | FORBIDDEN
  | NOT_FOUND
  | UNSUPPORTED_MEDIA_TYPE
  | INTERNAL_SERVER_ERROR
  | NOT_IMPLEMENTED

text \<open>Modelled from the spec: the number of a code (\<^verbatim>\<open>static_cast<int>(status)\<close>).\<close>

fun code_value :: "Code \<Rightarrow> nat" where
  "code_value OK = 200"
| "code_value BAD_REQUEST = 400"
| "code_value FORBIDDEN = 403"
| "code_value NOT_FOUND = 404"
| "code_value UNSUPPORTED_MEDIA_TYPE = 415"
| "code_value INTERNAL_SERVER_ERROR = 500"
| "code_value NOT_IMPLEMENTED = 501"

text \<open>Modelled from the spec: \<^verbatim>\<open>http::status::getCode\<close>, the code as decimal text.\<close>

definition status_getCode :: "Code \<Rightarrow> string" where
  "status_getCode c = to_string (code_value c)"

text \<open>Modelled from the spec: \<^verbatim>\<open>http::status::toString\<close>, the reason phrase.\<close>

fun status_toString :: "Code \<Rightarrow> string" where
  "status_toString OK = ''OK''"
| "status_toString BAD_REQUEST = ''Bad Request''"
| "status_toString FORBIDDEN = ''Forbidden''"
| "status_toString NOT_FOUND = ''Not Found''"
| "status_toString UNSUPPORTED_MEDIA_TYPE = ''Unsupported Media Type''"
| "status_toString INTERNAL_SERVER_ERROR = ''Internal Server Error''"
| "status_toString NOT_IMPLEMENTED = ''Not Implemented''"

text \<open>
  Modelled from the spec: \<^verbatim>\<open>http_method.hpp\<close> is not among the sources. The spec gives the
  method enum as GET, POST and the sentinel INVALID.
\<close>

datatype Method = GET | POST | INVALID

text \<open>
  Modelled from the spec: \<^verbatim>\<open>http::method::fromString\<close>; a token that is not a known method is
  surfaced as the sentinel.
\<close>

definition method_fromString :: "string \<Rightarrow> Method" where
  "method_fromString s =
     (if s = ''GET'' then GET else if s = ''POST'' then POST else INVALID)"

text \<open>Modelled from the spec: \<^verbatim>\<open>http::method::toString\<close>, the name of a method.\<close>

fun method_toString :: "Method \<Rightarrow> string" where
  "method_toString GET = ''GET''"
| "method_toString POST = ''POST''"
| "method_toString INVALID = ''INVALID''"

text \<open>
  Modelled from the spec: \<^verbatim>\<open>http::method::isValid\<close>; every method but the sentinel is valid
  (the parser logs "Invalid HTTP method" for a method that is not).
\<close>

definition method_isValid :: "Method \<Rightarrow> bool" where
  "method_isValid m = (m \<noteq> INVALID)"


section \<open>HttpMessage: headers and body\<close>

text \<open>
  Modelled from the spec: \<^verbatim>\<open>http_message.hpp\<close> (the base class of request and response) is not
  among the sources. The spec describes the headers as a case-insensitive mapping from name to
  raw value that preserves the first occurrence on a duplicate name. The model keeps the entries
  in a list in the order of insertion; the order in which the real container iterates is not
  specified, so no theorem below depends on it.
\<close>

type_synonym headers = "(string \<times> string) list"

text \<open>
  Modelled from the spec: \<^verbatim>\<open>HttpMessage::getHeader\<close>, the value stored under a name, names
  compared without regard to case.
\<close>

fun getHeader :: "headers \<Rightarrow> string \<Rightarrow> string option" where
  "getHeader [] k = None"
| "getHeader ((k', v) # hs) k =
     (if toLower k' = toLower k then Some v else getHeader hs k)"

text \<open>
  Modelled from the spec: \<^verbatim>\<open>HttpMessage::setHeader\<close>; a name that is already present keeps its
  first value.
\<close>

definition setHeader :: "string \<Rightarrow> string \<Rightarrow> headers \<Rightarrow> headers" where
  "setHeader k v hs = (case getHeader hs k of None \<Rightarrow> hs @ [(k, v)] | Some old \<Rightarrow> hs)"


section \<open>HttpRequest::parse\<close>

record HttpRequest =
  req_method :: string
  req_uri :: string
  req_version :: string
  req_headers :: headers
  req_body :: string

text \<open>A default-constructed request, as \<^verbatim>\<open>ConnectionHandler::parseRequest\<close> creates it.\<close>

definition HttpRequest_new :: HttpRequest where
  "HttpRequest_new =
     \<lparr>req_method = [], req_uri = [], req_version = [], req_headers = [], req_body = []\<rparr>"

text \<open>
  \<^verbatim>\<open>parse\<close> returns \<^verbatim>\<open>false\<close> after logging which stage failed; the model keeps the stage, and for
  the body the branch of \<^verbatim>\<open>parseBody\<close> that returned \<^verbatim>\<open>false\<close>.
\<close>

datatype body_error = IncompleteBody | InvalidContentLength | ContentLengthOutOfRange

datatype parse_error =
    MissingStartLineEnd
  | InvalidStartLine
  | MissingHeadersEnd
  | InvalidBody body_error

text \<open>
  \<^verbatim>\<open>parseStartLine\<close>: two spaces split the line into method, URI and version; a method token
  that \<^verbatim>\<open>isValid\<close> rejects makes the function return \<^verbatim>\<open>false\<close>. The setters of the base class
  (\<^verbatim>\<open>setVersion\<close>, \<^verbatim>\<open>setBody\<close>) are taken to store their argument.
\<close>

definition parseStartLine :: "string \<Rightarrow> HttpRequest \<Rightarrow> HttpRequest option" where
  "parseStartLine line r =
     (case find_sub '' '' line of
        None \<Rightarrow> None
      | Some methodEnd \<Rightarrow>
          (case find_from '' '' line (methodEnd + 1) of
             None \<Rightarrow> None
           | Some uriEnd \<Rightarrow>
               (let methodStr = substr line 0 methodEnd;
                    m = method_fromString methodStr
                in if \<not> method_isValid m then None
                   else Some (r\<lparr>req_method := method_toString m,
                                req_uri := substr line (methodEnd + 1) (uriEnd - methodEnd - 1),
                                req_version := substr_from line (uriEnd + 1)\<rparr>))))"

text \<open>
  One pass of the loop body of \<^verbatim>\<open>parseHeaders\<close> on a single header line: an empty line and a
  line without a colon record nothing; otherwise the name is the text before the first colon and
  the value starts at the first non-space byte after it.
\<close>

definition parseHeaderLine :: "string \<Rightarrow> headers \<Rightarrow> headers" where
  "parseHeaderLine header hs =
     (if header = [] then hs
      else (case find_sub '':'' header of
              None \<Rightarrow> hs
            | Some separator \<Rightarrow>
                (let v = (case find_first_not_of_space header (separator + 1) of
                            Some valueStart \<Rightarrow> substr_from header valueStart
                          | None \<Rightarrow> [])
                 in setHeader (substr header 0 separator) v hs)))"

lemma find_sub_bound: "find_sub pat s = Some i \<Longrightarrow> i \<le> length s"
  by (induction s arbitrary: i) (auto split: if_splits)

lemma find_from_ge: "find_from pat s pos = Some e \<Longrightarrow> pos \<le> e \<and> e \<le> length s"
  by (auto simp: find_from_def split: if_splits dest!: find_sub_bound)

text \<open>
  The \<^verbatim>\<open>while(pos < headersBlock.size())\<close> loop of \<^verbatim>\<open>parseHeaders\<close>, with \<open>pos\<close> and the headers
  recorded so far as the loop state.
\<close>

function parseHeaders_loop :: "string \<Rightarrow> nat \<Rightarrow> headers \<Rightarrow> headers" where
  "parseHeaders_loop headersBlock pos hs =
     (if pos < length headersBlock then
        (let end = (case find_from CRLF headersBlock pos of
                      None \<Rightarrow> length headersBlock
                    | Some e \<Rightarrow> e);
             header = substr headersBlock pos (end - pos);
             pos' = (if end = length headersBlock then end else end + 2)
         in parseHeaders_loop headersBlock pos' (parseHeaderLine header hs))
      else hs)"
  by pat_completeness auto
termination
proof (relation "measure (\<lambda>(b, pos, hs). length b - pos)", goal_cases)
  case 1
  show ?case by simp
next
  case (2 headersBlock pos hs x xa xb)
  then show ?case
    by (auto split: option.splits if_splits dest!: find_from_ge)
qed

declare parseHeaders_loop.simps [simp del]

definition parseHeaders :: "string \<Rightarrow> HttpRequest \<Rightarrow> HttpRequest" where
  "parseHeaders headersBlock r =
     r\<lparr>req_headers := parseHeaders_loop headersBlock 0 (req_headers r)\<rparr>"

text \<open>
  \<^verbatim>\<open>std::stoul\<close> (base 10) on a 64-bit \<^verbatim>\<open>unsigned long\<close>: leading white space is skipped, one
  sign is accepted, the longest run of digits is read and the rest ignored. No digit is
  \<^verbatim>\<open>std::invalid_argument\<close>; a magnitude past the type is \<^verbatim>\<open>std::out_of_range\<close>; a minus sign
  negates the value in unsigned arithmetic.
\<close>

datatype stoul_error = invalid_argument | out_of_range

definition is_space :: "char \<Rightarrow> bool" where
  "is_space c = (c \<in> set [CHR '' '', CHR 0x09, CHR 0x0A, CHR 0x0B, CHR 0x0C, CHR 0x0D])"

definition is_digit :: "char \<Rightarrow> bool" where
  "is_digit c = ((48::nat) \<le> of_char c \<and> of_char c \<le> (57::nat))"

definition digits_value :: "string \<Rightarrow> nat" where
  "digits_value ds = foldl (\<lambda>acc c. 10 * acc + (of_char c - 48)) 0 ds"

definition stoul :: "string \<Rightarrow> stoul_error + nat" where
  "stoul s =
     (let s1 = dropWhile is_space s;
          neg = (case s1 of c # cs \<Rightarrow> c = CHR ''-'' | [] \<Rightarrow> False);
          s2 = (case s1 of c # cs \<Rightarrow> (if c = CHR ''-'' \<or> c = CHR ''+'' then cs else s1) | [] \<Rightarrow> s1);
          ds = takeWhile is_digit s2
      in if ds = [] then Inl invalid_argument
         else if 2 ^ 64 \<le> digits_value ds then Inl out_of_range
         else Inr (if neg then (2 ^ 64 - digits_value ds) mod 2 ^ 64 else digits_value ds))"

text \<open>
  \<^verbatim>\<open>parseBody\<close>. The Content-Length header is consulted only when at least one byte follows the
  header block; otherwise the body is set to the empty string and the function returns
  \<^verbatim>\<open>true\<close>.
\<close>

definition parseBody :: "string \<Rightarrow> nat \<Rightarrow> HttpRequest \<Rightarrow> body_error + HttpRequest" where
  "parseBody rawData bodyStart r =
     (if bodyStart < length rawData then
        (case getHeader (req_headers r) ''Content-Length'' of
           Some contentLengthHeader \<Rightarrow>
             (case stoul contentLengthHeader of
                Inr contentLength \<Rightarrow>
                  (if contentLength \<le> length rawData - bodyStart
                   then Inr (r\<lparr>req_body := substr rawData bodyStart contentLength\<rparr>)
                   else Inl IncompleteBody)
              | Inl invalid_argument \<Rightarrow> Inl InvalidContentLength
              | Inl out_of_range \<Rightarrow> Inl ContentLengthOutOfRange)
         | None \<Rightarrow> Inr r)
      else Inr (r\<lparr>req_body := []\<rparr>))"

text \<open>\<^verbatim>\<open>HttpRequest::parse\<close> on a default-constructed request.\<close>

definition parse :: "string \<Rightarrow> parse_error + HttpRequest" where
  "parse rawData =
     (case find_sub CRLF rawData of
        None \<Rightarrow> Inl MissingStartLineEnd
      | Some startLineEnd \<Rightarrow>
          (case parseStartLine (substr rawData 0 startLineEnd) HttpRequest_new of
             None \<Rightarrow> Inl InvalidStartLine
           | Some r1 \<Rightarrow>
               (let headersStart = startLineEnd + 2
                in case find_from CRLFCRLF rawData headersStart of
                     None \<Rightarrow> Inl MissingHeadersEnd
                   | Some headersEnd \<Rightarrow>
                       (let headersBlock = substr rawData headersStart (headersEnd - headersStart);
                            r2 = parseHeaders headersBlock r1;
                            bodyStart = headersEnd + 4
                        in case parseBody rawData bodyStart r2 of
                             Inl e \<Rightarrow> Inl (InvalidBody e)
                           | Inr r3 \<Rightarrow> Inr r3))))"

section \<open>The environment of the file resolver\<close>

text \<open>
  \<^verbatim>\<open>FileResolver\<close> reads the configuration singleton and the file system (\<^verbatim>\<open>realpath\<close>,
  \<^verbatim>\<open>stat\<close>, \<^verbatim>\<open>std::ifstream\<close>). The model takes them as an environment: \<open>realpath\<close> and
  \<open>stat\<close> give \<open>None\<close> where the system call fails, and \<open>ifstream_read\<close> says how far reading
  a file gets.
\<close>

datatype file_stat = Stat (is_reg: bool) (st_size: nat)

datatype read_result = OpenFails | TellFails | ReadFails | Contents string

record env =
  getRootFolder :: string
  getIndexFile :: string
  realpath :: "string \<Rightarrow> string option"
  stat :: "string \<Rightarrow> file_stat option"
  ifstream_read :: "string \<Rightarrow> read_result"

text \<open>
  \<^verbatim>\<open>FileResolver::sanitizePath\<close>. The traversal check is \<^verbatim>\<open>fullPath.find(root) != 0\<close>: the
  canonical root must occur in the canonical target at index 0.
\<close>

definition sanitizePath :: "env \<Rightarrow> string \<Rightarrow> Code + string" where
  "sanitizePath e uri =
     (case realpath e (getRootFolder e) of
        None \<Rightarrow> Inl INTERNAL_SERVER_ERROR
      | Some root \<Rightarrow>
          (let sep = (if root \<noteq> [] \<and> last root \<noteq> CHR ''/'' then ''/'' else []);
               targetPath =
                 (if uri = [] \<or> uri = ''/'' then root @ sep @ getIndexFile e
                  else (let relative = (if uri \<noteq> [] \<and> hd uri = CHR ''/'' then tl uri else uri)
                        in root @ sep @ relative))
           in case realpath e targetPath of
                None \<Rightarrow> Inl NOT_FOUND
              | Some fullPath \<Rightarrow>
                  (if find_sub root fullPath \<noteq> Some 0 then Inl FORBIDDEN
                   else (case stat e fullPath of
                           None \<Rightarrow> Inl NOT_FOUND
                         | Some pathStat \<Rightarrow>
                             (if \<not> is_reg pathStat then Inl FORBIDDEN else Inr fullPath)))))"

text \<open>\<^verbatim>\<open>FileResolver::readFile\<close>.\<close>

definition readFile :: "env \<Rightarrow> string \<Rightarrow> Code + string" where
  "readFile e path =
     (case ifstream_read e path of
        OpenFails \<Rightarrow> Inl (if stat e path \<noteq> None then FORBIDDEN else NOT_FOUND)
      | TellFails \<Rightarrow> Inl INTERNAL_SERVER_ERROR
      | ReadFails \<Rightarrow> Inl INTERNAL_SERVER_ERROR
      | Contents content \<Rightarrow> Inr content)"


section \<open>Media types and percent-decoding\<close>

text \<open>
  Modelled from the spec: \<^verbatim>\<open>http_mime.hpp\<close> is not among the sources. The media types are
  those of the spec's table, the media type of a form body (\<^verbatim>\<open>APP_FORM\<close>) and the sentinel
  \<^verbatim>\<open>Media::INVALID\<close>.
\<close>

datatype Media =
    TEXT_HTML | TEXT_CSS | TEXT_JAVASCRIPT | TEXT_PLAIN | APP_JSON | IMAGE_PNG | IMAGE_JPEG
  | IMAGE_GIF | IMAGE_SVG | IMAGE_ICON | FONT_WOFF2 | APP_FORM | MEDIA_INVALID

text \<open>
  Modelled from the spec: \<^verbatim>\<open>http::mime::fromExtension\<close>, the spec's table from an extension
  (with its dot) to a media type; any other extension is the sentinel.
\<close>

definition mime_fromExtension :: "string \<Rightarrow> Media" where
  "mime_fromExtension ext =
     (if ext = ''.html'' \<or> ext = ''.htm'' then TEXT_HTML
      else if ext = ''.css'' then TEXT_CSS
      else if ext = ''.js'' then TEXT_JAVASCRIPT
      else if ext = ''.txt'' then TEXT_PLAIN
      else if ext = ''.json'' then APP_JSON
      else if ext = ''.png'' then IMAGE_PNG
      else if ext = ''.jpg'' \<or> ext = ''.jpeg'' then IMAGE_JPEG
      else if ext = ''.gif'' then IMAGE_GIF
      else if ext = ''.svg'' then IMAGE_SVG
      else if ext = ''.ico'' then IMAGE_ICON
      else if ext = ''.woff2'' then FONT_WOFF2
      else MEDIA_INVALID)"

text \<open>Modelled from the spec: \<^verbatim>\<open>http::mime::toString\<close>, the text of a media type.\<close>

fun mime_toString :: "Media \<Rightarrow> string" where
  "mime_toString TEXT_HTML = ''text/html''"
| "mime_toString TEXT_CSS = ''text/css''"
| "mime_toString TEXT_JAVASCRIPT = ''text/javascript''"
| "mime_toString TEXT_PLAIN = ''text/plain''"
| "mime_toString APP_JSON = ''application/json''"
| "mime_toString IMAGE_PNG = ''image/png''"
| "mime_toString IMAGE_JPEG = ''image/jpeg''"
| "mime_toString IMAGE_GIF = ''image/gif''"
| "mime_toString IMAGE_SVG = ''image/svg+xml''"
| "mime_toString IMAGE_ICON = ''image/x-icon''"
| "mime_toString FONT_WOFF2 = ''font/woff2''"
| "mime_toString APP_FORM = ''application/x-www-form-urlencoded''"
| "mime_toString MEDIA_INVALID = []"

text \<open>Modelled from the spec: the value of a hexadecimal digit, for \<^verbatim>\<open>decode\<close>.\<close>

definition hex_value :: "char \<Rightarrow> nat option" where
  "hex_value c =
     (let n = (of_char c :: nat)
      in if 48 \<le> n \<and> n \<le> 57 then Some (n - 48)
         else if 65 \<le> n \<and> n \<le> 70 then Some (n - 55)
         else if 97 \<le> n \<and> n \<le> 102 then Some (n - 87)
         else None)"

text \<open>
  Modelled from the spec: \<^verbatim>\<open>http::encoding::decode\<close> (\<^verbatim>\<open>http_encoding.hpp\<close> is not among the
  sources). A percent sign followed by two hexadecimal digits is the byte with that value; every
  other byte passes through.
\<close>

fun decode :: "string \<Rightarrow> string" where
  "decode [] = []"
| "decode [c] = [c]"
| "decode [c, d] = [c, d]"
| "decode (c # h1 # h2 # rest) =
     (if c = CHR ''%'' then
        (case (hex_value h1, hex_value h2) of
           (Some a, Some b) \<Rightarrow> char_of (16 * a + b) # decode rest
         | _ \<Rightarrow> c # decode (h1 # h2 # rest))
      else c # decode (h1 # h2 # rest))"


section \<open>HttpResponse and the response composer\<close>

record HttpResponse =
  resp_status :: Code
  isStatic :: bool
  resp_version :: string
  resp_headers :: headers
  resp_body :: string

text \<open>
  Modelled from the spec: the version that \<^verbatim>\<open>HttpMessage::getVersion\<close> reports for a new
  response; the spec's status line starts with \<^verbatim>\<open>HTTP/1.1\<close>.
\<close>

definition default_version :: string where
  "default_version = ''HTTP/1.1''"

text \<open>\<^verbatim>\<open>HttpResponse::HttpResponse()\<close>: status OK, not static, no header, empty body.\<close>

definition HttpResponse_new :: HttpResponse where
  "HttpResponse_new =
     \<lparr>resp_status = OK, isStatic = False, resp_version = default_version,
      resp_headers = [], resp_body = []\<rparr>"

definition resp_setHeader :: "string \<Rightarrow> string \<Rightarrow> HttpResponse \<Rightarrow> HttpResponse" where
  "resp_setHeader k v r = r\<lparr>resp_headers := setHeader k v (resp_headers r)\<rparr>"

text \<open>\<^verbatim>\<open>HttpResponse::getStatusLine\<close>.\<close>

definition getStatusLine :: "HttpResponse \<Rightarrow> string" where
  "getStatusLine r =
     resp_version r @ '' '' @ to_string (code_value (resp_status r)) @ '' ''
       @ status_toString (resp_status r)"

definition header_lines :: "headers \<Rightarrow> string" where
  "header_lines hs = concat (map (\<lambda>(key, value). key @ '': '' @ value @ CRLF) hs)"

text \<open>\<^verbatim>\<open>ResponseComposer::composeResponseString\<close>: status line, headers, blank line.\<close>

definition composeResponseString :: "HttpResponse \<Rightarrow> string" where
  "composeResponseString response =
     getStatusLine response @ CRLF @ header_lines (resp_headers response) @ CRLF"

text \<open>
  \<^verbatim>\<open>ResponseComposer::composeErrorMessage\<close>: it changes the response it is given and returns a
  string of the headers, a blank line and the body (no status line).
\<close>

definition composeErrorMessage :: "HttpResponse \<Rightarrow> Code \<Rightarrow> HttpResponse \<times> string" where
  "composeErrorMessage response code =
     (let body = status_getCode code @ '' '' @ status_toString code;
          r1 = response\<lparr>resp_status := code\<rparr>;
          r2 = resp_setHeader ''Content-Type'' (mime_toString TEXT_HTML) r1;
          r3 = resp_setHeader ''Content-Length'' (to_string (length body)) r2;
          r4 = resp_setHeader ''Connection'' ''close'' r3;
          r5 = r4\<lparr>resp_body := body\<rparr>
      in (r5, header_lines (resp_headers r5) @ CRLF @ resp_body r5))"


section \<open>The response builders\<close>

definition MAX_FILE_SIZE :: nat where
  "MAX_FILE_SIZE = 128 * 1024"

text \<open>
  The extension as the GET builder takes it from the resolved path: the text from the last dot
  on (\<^verbatim>\<open>find_last_of('.')\<close> and \<^verbatim>\<open>substr(dotPos)\<close>), or the empty string without a dot.
\<close>

definition path_extension :: "string \<Rightarrow> string" where
  "path_extension validPath =
     (case find_last_of (CHR ''.'') validPath of
        Some dotPos \<Rightarrow> substr_from validPath dotPos
      | None \<Rightarrow> [])"

text \<open>\<^verbatim>\<open>GetResponseBuilder::buildResponse\<close>.\<close>

definition GetResponseBuilder_buildResponse :: "env \<Rightarrow> HttpRequest \<Rightarrow> Code + HttpResponse" where
  "GetResponseBuilder_buildResponse e request =
     (case sanitizePath e (req_uri request) of
        Inl code \<Rightarrow> Inl code
      | Inr validPath \<Rightarrow>
          (case stat e validPath of
             None \<Rightarrow> Inl NOT_FOUND
           | Some st \<Rightarrow>
               (if \<not> is_reg st then Inl NOT_FOUND
                else
                  (let extension = path_extension validPath;
                       mime = mime_fromExtension extension
                   in if mime = MEDIA_INVALID then Inl UNSUPPORTED_MEDIA_TYPE
                      else
                        (let mimeType = mime_toString mime;
                             fileSize = st_size st;
                             response = resp_setHeader ''Content-Type'' mimeType
                                          (HttpResponse_new\<lparr>resp_status := OK\<rparr>)
                         in if MAX_FILE_SIZE < fileSize then
                              Inr ((resp_setHeader ''File-Path'' validPath
                                      (resp_setHeader ''Content-Length'' (to_string fileSize)
                                         response))
                                   \<lparr>resp_body := [], isStatic := True\<rparr>)
                            else
                              (case readFile e validPath of
                                 Inl code \<Rightarrow> Inl code
                               | Inr contentStr \<Rightarrow>
                                   Inr ((resp_setHeader ''Content-Length''
                                           (to_string (length contentStr)) response)
                                        \<lparr>resp_body := contentStr, isStatic := False\<rparr>)))))))"

text \<open>
  The tokens that successive \<^verbatim>\<open>std::getline(bodyStream, keyValue, '&')\<close> calls read: a delimiter
  ends a token (which may be empty); at the end of the input a token is produced only when at
  least one byte was read for it. The second argument is the token read so far.
\<close>

fun getline_tokens :: "string \<Rightarrow> string \<Rightarrow> string list" where
  "getline_tokens [] cur = (if cur = [] then [] else [cur])"
| "getline_tokens (c # cs) cur =
     (if c = CHR ''&'' then cur # getline_tokens cs [] else getline_tokens cs (cur @ [c]))"

text \<open>The key and the value that the loop body of the POST builder computes for one token.\<close>

definition parsePair :: "string \<Rightarrow> string \<times> string" where
  "parsePair keyValue =
     (let pos = find_sub ''='' keyValue;
          key = (case pos of None \<Rightarrow> [] | Some p \<Rightarrow> decode (substr keyValue 0 p));
          val = (case pos of
                   None \<Rightarrow> []
                 | Some p \<Rightarrow> (if p = length keyValue - 1 then []
                              else decode (substr_from keyValue (p + 1))))
      in (key, val))"

text \<open>
  \<^verbatim>\<open>formData[key] = value\<close> on the \<^verbatim>\<open>std::unordered_map\<close>: an existing key is overwritten. The
  order in which the map is iterated is unspecified; the model lists the keys in the order of
  their first insertion.
\<close>

definition storePair :: "(string \<times> string) list \<Rightarrow> string \<Rightarrow> (string \<times> string) list" where
  "storePair formData keyValue =
     (case parsePair keyValue of (key, val) \<Rightarrow> AList.update key val formData)"

definition parseFormData :: "string \<Rightarrow> (string \<times> string) list" where
  "parseFormData body = foldl storePair [] (getline_tokens body [])"

definition formResponseBody :: "(string \<times> string) list \<Rightarrow> string" where
  "formResponseBody formData =
     ''Received form data:'' @ CRLF @ header_lines formData @ ''POST Successful!''"

text \<open>\<^verbatim>\<open>PostResponseBuilder::buildResponse\<close>.\<close>

definition PostResponseBuilder_buildResponse :: "HttpRequest \<Rightarrow> Code + HttpResponse" where
  "PostResponseBuilder_buildResponse request =
     (let ct = (case getHeader (req_headers request) ''Content-Type'' of
                  Some v \<Rightarrow> v | None \<Rightarrow> []);
          requestContentType = (case find_sub '';'' ct of
                                  Some semicolon \<Rightarrow> substr ct 0 semicolon
                                | None \<Rightarrow> ct)
      in if requestContentType \<noteq> mime_toString APP_FORM then Inl UNSUPPORTED_MEDIA_TYPE
         else if req_uri request \<noteq> ''/submit'' then Inl NOT_FOUND
         else
           (let responseBody = formResponseBody (parseFormData (req_body request));
                r1 = HttpResponse_new\<lparr>resp_status := OK\<rparr>;
                r2 = resp_setHeader ''Content-Type'' (mime_toString TEXT_HTML) r1;
                r3 = resp_setHeader ''Content-Length'' (to_string (length responseBody)) r2;
                r4 = resp_setHeader ''Connection'' ''close'' r3
            in Inr (r4\<lparr>resp_body := responseBody\<rparr>)))"

text \<open>
  \<^verbatim>\<open>ResponseBuilderFactory::createBuilder\<close> with the registry that
  \<^verbatim>\<open>HttpServer::setupDependencies\<close> fills: builders for GET and POST, none for any other method.
\<close>

definition createBuilder :: "env \<Rightarrow> Method \<Rightarrow> (HttpRequest \<Rightarrow> Code + HttpResponse) option" where
  "createBuilder e m =
     (case m of
        GET \<Rightarrow> Some (GetResponseBuilder_buildResponse e)
      | POST \<Rightarrow> Some PostResponseBuilder_buildResponse
      | INVALID \<Rightarrow> None)"


section \<open>The connection handler\<close>

text \<open>
  What the handler puts on the socket, in order: bytes passed to \<^verbatim>\<open>Socket::send\<close>, or a number
  of bytes of a file passed to \<^verbatim>\<open>Socket::sendfile\<close>. The handler model follows the run in which
  the operating system accepts every send.
\<close>

datatype wire_item = Bytes string | FileBytes string nat

text \<open>
  \<^verbatim>\<open>ConnectionHandler::sendErrorResponse(response, code)\<close>: the composer fills the response, the
  string it returns is dropped, and the body of the response is sent.
\<close>

definition sendErrorResponse :: "HttpResponse \<Rightarrow> Code \<Rightarrow> wire_item list" where
  "sendErrorResponse response code =
     (let response' = fst (composeErrorMessage response code)
      in [Bytes (resp_body response')])"

text \<open>
  \<^verbatim>\<open>ConnectionHandler::sendResponse\<close>: the composed status line and headers first; then, for a
  static response, the file named by the \<^verbatim>\<open>File-Path\<close> header (the byte count from the
  \<^verbatim>\<open>Content-Length\<close> header, or from \<^verbatim>\<open>fstat\<close> without one), otherwise the body. A file
  whose read result is \<open>OpenFails\<close> is one that \<^verbatim>\<open>open\<close> fails on. The second component says
  whether an exception left the function (\<^verbatim>\<open>std::stoul\<close> on the header).
\<close>

definition sendResponse :: "env \<Rightarrow> HttpResponse \<Rightarrow> wire_item list \<times> bool" where
  "sendResponse e response =
     (let responseHeadersStr = composeResponseString response
      in if isStatic response then
           (let file = (case getHeader (resp_headers response) ''File-Path'' of
                          Some f \<Rightarrow> f | None \<Rightarrow> [])
            in if ifstream_read e file = OpenFails then ([Bytes responseHeadersStr], False)
               else
                 (case getHeader (resp_headers response) ''Content-Length'' of
                    Some contentLength \<Rightarrow>
                      (case stoul contentLength of
                         Inl err \<Rightarrow> ([Bytes responseHeadersStr], True)
                       | Inr totalBytesToSend \<Rightarrow>
                           ([Bytes responseHeadersStr, FileBytes file totalBytesToSend], False))
                  | None \<Rightarrow>
                      (case stat e file of
                         None \<Rightarrow>
                           ([Bytes responseHeadersStr]
                              @ sendErrorResponse response INTERNAL_SERVER_ERROR, False)
                       | Some fileStat \<Rightarrow>
                           ([Bytes responseHeadersStr, FileBytes file (st_size fileStat)], False))))
         else ([Bytes responseHeadersStr, Bytes (resp_body response)], False))"

text \<open>
  The part of \<^verbatim>\<open>handleRequest\<close> between parsing and sending: pick the builder by method, build,
  compose an error response from a builder's status code, then set the \<^verbatim>\<open>Connection\<close> header
  and the keep-alive flag from the request's \<^verbatim>\<open>Connection\<close> header.
\<close>

definition buildResult :: "env \<Rightarrow> HttpRequest \<Rightarrow> Code + HttpResponse" where
  "buildResult e request =
     (case createBuilder e (method_fromString (req_method request)) of
        Some builder \<Rightarrow> builder request
      | None \<Rightarrow> Inl NOT_IMPLEMENTED)"

definition respond :: "env \<Rightarrow> HttpRequest \<Rightarrow> HttpResponse \<times> bool" where
  "respond e request =
     (let response = (case buildResult e request of
                        Inr r \<Rightarrow> r
                      | Inl code \<Rightarrow> fst (composeErrorMessage HttpResponse_new code))
      in case getHeader (req_headers request) ''Connection'' of
           Some connectionHeader \<Rightarrow>
             (if connectionHeader = ''keep-alive''
              then (resp_setHeader ''Connection'' ''keep-alive'' response, True)
              else (resp_setHeader ''Connection'' ''close'' response, False))
         | None \<Rightarrow> (resp_setHeader ''Connection'' ''keep-alive'' response, True))"

text \<open>
  How the read loop of \<^verbatim>\<open>parseRequest\<close> ends: with the bytes it has gathered, with the
  \<^verbatim>\<open>std::system_error\<close> that \<^verbatim>\<open>Socket::recv\<close> throws, or with the peer's close (a
  \<^verbatim>\<open>std::runtime_error\<close>).
\<close>

datatype recv_outcome = RequestData string | RecvError | PeerClosed

text \<open>
  \<^verbatim>\<open>ConnectionHandler::handleRequest\<close>: what goes on the wire and the keep-alive flag it returns.
  A failed parse throws \<^verbatim>\<open>std::runtime_error\<close>, which the second handler catches.
\<close>

definition handleRequest :: "env \<Rightarrow> recv_outcome \<Rightarrow> wire_item list \<times> bool" where
  "handleRequest e inp =
     (case inp of
        RecvError \<Rightarrow> (sendErrorResponse HttpResponse_new BAD_REQUEST, False)
      | PeerClosed \<Rightarrow> (sendErrorResponse HttpResponse_new INTERNAL_SERVER_ERROR, False)
      | RequestData requestData \<Rightarrow>
          (case parse requestData of
             Inl err \<Rightarrow> (sendErrorResponse HttpResponse_new INTERNAL_SERVER_ERROR, False)
           | Inr request \<Rightarrow>
               (let response = fst (respond e request);
                    keepAlive = snd (respond e request);
                    sent = sendResponse e response
                in if snd sent
                   then (fst sent @ sendErrorResponse HttpResponse_new INTERNAL_SERVER_ERROR, False)
                   else (fst sent, keepAlive))))"

definition MAX_KEEP_ALIVE_REQUESTS :: nat where
  "MAX_KEEP_ALIVE_REQUESTS = 100"

text \<open>
  The \<^verbatim>\<open>do ... while(true)\<close> loop of \<^verbatim>\<open>ConnectionHandler::processRequests\<close>. The client's
  behaviour is given per cycle: whether \<^verbatim>\<open>waitForData\<close> reports data for the cycle, and how the
  read of that cycle ends. The state is \<^verbatim>\<open>requestCount\<close> and the wire so far. A wait that ends
  without data (time-out, shutdown, or a failed poll, which in one variant of the handler leaves
  the function by an exception) ends the loop with the count reached so far.
\<close>

function processRequests_loop ::
  "env \<Rightarrow> (nat \<Rightarrow> bool) \<Rightarrow> (nat \<Rightarrow> recv_outcome) \<Rightarrow> nat \<Rightarrow> wire_item list
     \<Rightarrow> nat \<times> wire_item list" where
  "processRequests_loop e waitForData inputs requestCount wire =
     (if \<not> waitForData requestCount then (requestCount, wire)
      else
        (let handled = handleRequest e (inputs requestCount);
             keepAlive = snd handled;
             requestCount' = requestCount + 1;
             wire' = wire @ fst handled
         in if MAX_KEEP_ALIVE_REQUESTS \<le> requestCount' then (requestCount', wire')
            else if \<not> keepAlive then (requestCount', wire')
            else processRequests_loop e waitForData inputs requestCount' wire'))"
  by pat_completeness auto
termination
  by (relation "measure (\<lambda>(e, w, i, requestCount, wire). MAX_KEEP_ALIVE_REQUESTS - requestCount)")
     (auto simp: MAX_KEEP_ALIVE_REQUESTS_def)

declare processRequests_loop.simps [simp del]

definition processRequests ::
  "env \<Rightarrow> (nat \<Rightarrow> bool) \<Rightarrow> (nat \<Rightarrow> recv_outcome) \<Rightarrow> nat \<times> wire_item list" where
  "processRequests e waitForData inputs = processRequests_loop e waitForData inputs 0 []"


section \<open>Socket::send\<close>

text \<open>
  One call of the system's \<^verbatim>\<open>::send\<close> either accepts some bytes, or returns \<open>-1\<close> with
  \<^verbatim>\<open>errno\<close> set to \<^verbatim>\<open>EAGAIN\<close>/\<^verbatim>\<open>EWOULDBLOCK\<close>, or returns \<open>-1\<close> with another \<^verbatim>\<open>errno\<close>.
\<close>

datatype os_send = Sent nat | WouldBlock | Failed nat

text \<open>
  The loop of \<^verbatim>\<open>Socket::send\<close> against a list of results of the system call, one per call.
  \<^verbatim>\<open>totalSent\<close> and \<^verbatim>\<open>len\<close> are \<^verbatim>\<open>size_t\<close> (64 bits); \<^verbatim>\<open>totalSent += bytesSent\<close> adds the signed
  result converted to \<^verbatim>\<open>size_t\<close>, so a result of \<open>-1\<close> that is not would-block subtracts one,
  wrapping at zero. The wire collects the bytes the system accepted. \<open>None\<close>: the listed results
  are used up with the loop still running.
\<close>

fun send_loop ::
  "os_send list \<Rightarrow> string \<Rightarrow> 64 word \<Rightarrow> 64 word \<Rightarrow> string \<Rightarrow> (string \<times> 64 word) option" where
  "send_loop [] buf len totalSent wire =
     (if totalSent < len then None else Some (wire, totalSent))"
| "send_loop (r # rs) buf len totalSent wire =
     (if totalSent < len then
        (case r of
           Sent n \<Rightarrow>
             send_loop rs buf len (totalSent + word_of_nat n)
               (wire @ take n (drop (unat totalSent) buf))
         | WouldBlock \<Rightarrow> send_loop rs buf len totalSent wire
         | Failed errno \<Rightarrow> send_loop rs buf len (totalSent + word_of_int (- 1)) wire)
      else Some (wire, totalSent))"

text \<open>
  \<^verbatim>\<open>Socket::send\<close>: the bytes that reached the wire and the returned \<^verbatim>\<open>ssize_t\<close>. The function
  has no \<^verbatim>\<open>throw\<close>: no result of the system call makes it raise an error.
\<close>

definition Socket_send :: "os_send list \<Rightarrow> string \<Rightarrow> (string \<times> int) option" where
  "Socket_send os buf =
     map_option (\<lambda>(wire, totalSent). (wire, sint totalSent))
       (send_loop os buf (word_of_nat (length buf)) 0 [])"


section \<open>A sample document tree\<close>

text \<open>
  A document root \<^verbatim>\<open>/srv/www\<close> with an index page, a large page and a page that cannot be
  opened, beside a sibling directory \<^verbatim>\<open>/srv/www-backup\<close>. \<open>realpath\<close> lists the canonical form
  of the paths the examples use.
\<close>

definition sample_env :: env where
  "sample_env =
     \<lparr>getRootFolder = ''/srv/www'',
      getIndexFile = ''index.html'',
      realpath = map_of
        [(''/srv/www'', ''/srv/www''),
         (''/srv/www/index.html'', ''/srv/www/index.html''),
         (''/srv/www/big.html'', ''/srv/www/big.html''),
         (''/srv/www/locked.html'', ''/srv/www/locked.html''),
         (''/srv/www/../www-backup/secret.html'', ''/srv/www-backup/secret.html'')],
      stat = map_of
        [(''/srv/www'', Stat False 4096),
         (''/srv/www/index.html'', Stat True 9),
         (''/srv/www/big.html'', Stat True 200000),
         (''/srv/www/locked.html'', Stat True 10),
         (''/srv/www-backup/secret.html'', Stat True 6)],
      ifstream_read = (\<lambda>path.
         if path = ''/srv/www/index.html'' then Contents ''<p>Hi</p>''
         else if path = ''/srv/www-backup/secret.html'' then Contents ''secret''
         else if path = ''/srv/www/big.html'' then ReadFails
         else OpenFails)\<rparr>"


text \<open>
  The text of a header block that holds the given lines: the lines joined by CRLF. In a request
  the block is followed by the CRLF that ends its last line and the blank line.
\<close>

fun header_block :: "string list \<Rightarrow> string" where
  "header_block [] = []"
| "header_block [l] = l"
| "header_block (l # ls) = l @ CRLF @ header_block ls"


section \<open>Facts about the string searches\<close>

lemma find_sub_prefix: "prefix pat xs \<Longrightarrow> find_sub pat xs = Some 0"
  by (cases xs) auto

lemma find_sub_skip:
  "pat \<noteq> [] \<Longrightarrow> hd pat \<notin> set l \<Longrightarrow>
   find_sub pat (l @ xs) = map_option (\<lambda>i. i + length l) (find_sub pat xs)"
proof (induction l)
  case Nil
  then show ?case by (simp add: option.map_ident)
next
  case (Cons a l)
  then have "\<not> prefix pat (a # l @ xs)"
    by (cases pat) auto
  with Cons show ?case
    by (simp add: option.map_comp comp_def)
qed

lemma find_sub_absent:
  "pat \<noteq> [] \<Longrightarrow> hd pat \<notin> set l \<Longrightarrow> find_sub pat l = None"
  using find_sub_skip [of pat l "[]"] by simp

lemma find_sub_CRLF_line:
  "CHR 0x0D \<notin> set l \<Longrightarrow> find_sub CRLF (l @ CRLF @ rest) = Some (length l)"
  by (simp add: find_sub_skip find_sub_prefix CRLF_def)

lemma find_from_append:
  "find_from pat (pre @ s) (length pre) = map_option (\<lambda>i. i + length pre) (find_sub pat s)"
  by (simp add: find_from_def)

lemma parseHeaderLine_no_colon:
  "CHR '':'' \<notin> set l \<Longrightarrow> parseHeaderLine l hs = hs"
  by (simp add: parseHeaderLine_def find_sub_absent)

lemma parseHeaders_loop_last:
  assumes "l \<noteq> []" "CHR 0x0D \<notin> set l"
  shows "parseHeaders_loop (pre @ l) (length pre) hs = parseHeaderLine l hs"
proof -
  have f: "find_from CRLF (pre @ l) (length pre) = None"
    using assms by (simp add: find_from_append find_sub_absent CRLF_def)
  have "parseHeaders_loop (pre @ l) (length pre) hs
        = parseHeaders_loop (pre @ l) (length (pre @ l)) (parseHeaderLine l hs)"
    using assms f
    by (subst parseHeaders_loop.simps) (simp add: substr_def)
  also have "\<dots> = parseHeaderLine l hs"
    by (subst parseHeaders_loop.simps) simp
  finally show ?thesis .
qed

lemma parseHeaders_loop_line:
  assumes "CHR 0x0D \<notin> set l"
  shows "parseHeaders_loop (pre @ l @ CRLF @ rest) (length pre) hs
         = parseHeaders_loop ((pre @ l @ CRLF) @ rest) (length (pre @ l @ CRLF)) (parseHeaderLine l hs)"
proof -
  have f: "find_from CRLF (pre @ l @ CRLF @ rest) (length pre) = Some (length l + length pre)"
    using assms by (simp add: find_from_append find_sub_CRLF_line)
  show ?thesis
    using f by (subst parseHeaders_loop.simps) (simp add: substr_def CRLF_def add.commute)
qed

lemma parseHeaders_loop_lines:
  assumes "ls \<noteq> []" "\<forall>l\<in>set ls. l \<noteq> [] \<and> CHR 0x0D \<notin> set l"
  shows "parseHeaders_loop (pre @ header_block ls) (length pre) hs
         = foldl (\<lambda>h l. parseHeaderLine l h) hs ls"
  using assms
proof (induction ls arbitrary: pre hs rule: header_block.induct)
  case 1
  then show ?case by simp
next
  case (2 l)
  then show ?case by (simp add: parseHeaders_loop_last)
next
  case (3 l v va)
  have "parseHeaders_loop (pre @ l @ CRLF @ header_block (v # va)) (length pre) hs
      = parseHeaders_loop ((pre @ l @ CRLF) @ header_block (v # va)) (length (pre @ l @ CRLF)) (parseHeaderLine l hs)"
    using 3(3) by (intro parseHeaders_loop_line) simp
  also have "\<dots> = foldl (\<lambda>h l. parseHeaderLine l h) (parseHeaderLine l hs) (v # va)"
    using 3(3) by (intro 3(1)) auto
  finally show ?case by simp
qed

lemma find_sub_CRLFCRLF_block:
  assumes "ls \<noteq> []" "\<forall>l\<in>set ls. l \<noteq> [] \<and> CHR 0x0D \<notin> set l"
  shows "find_sub CRLFCRLF (header_block ls @ CRLFCRLF @ body) = Some (length (header_block ls))"
  using assms
proof (induction ls rule: header_block.induct)
  case 1
  then show ?case by simp
next
  case (2 l)
  then show ?case by (simp add: find_sub_skip find_sub_prefix CRLFCRLF_def)
next
  case (3 l v va)
  obtain c cs where v: "v = c # cs" "c \<noteq> CHR 0x0D"
    using 3(3) by (cases v) auto
  have ih: "find_sub CRLFCRLF (header_block (v # va) @ CRLFCRLF @ body) = Some (length (header_block (v # va)))"
    using 3 by simp
  have "find_sub CRLFCRLF (CRLF @ header_block (v # va) @ CRLFCRLF @ body)
        = Some (2 + length (header_block (v # va)))"
  proof (cases va)
    case Nil
    with ih v show ?thesis by (simp add: CRLF_def CRLFCRLF_def)
  next
    case (Cons a list)
    with ih v show ?thesis by (simp add: CRLF_def CRLFCRLF_def)
  qed
  moreover have "CHR 0x0D \<notin> set l" using 3(3) by simp
  ultimately show ?case
    by (simp add: find_sub_skip CRLFCRLF_def CRLF_def)
qed



lemma parseBody_shift:
  "parseBody (pre @ body) (length pre) r = parseBody body 0 r"
  by (auto simp: parseBody_def substr_def split: option.splits sum.splits stoul_error.splits)

lemma parseStartLine_headers:
  "parseStartLine line r = Some sl \<Longrightarrow> req_headers sl = req_headers r"
  by (auto simp: parseStartLine_def Let_def split: option.splits if_splits)

lemma foldl_skip_line:
  "CHR '':'' \<notin> set bad \<Longrightarrow>
   foldl (\<lambda>h l. parseHeaderLine l h) hs (ls1 @ bad # ls2)
   = foldl (\<lambda>h l. parseHeaderLine l h) hs (ls1 @ ls2)"
  by (simp add: parseHeaderLine_no_colon)

lemma parse_well_formed:
  assumes start: "CHR 0x0D \<notin> set start"
      and sl: "parseStartLine start HttpRequest_new = Some sl"
      and ls: "ls \<noteq> []" "\<forall>l\<in>set ls. l \<noteq> [] \<and> CHR 0x0D \<notin> set l"
  shows "parse (start @ CRLF @ header_block ls @ CRLFCRLF @ body)
         = (case parseBody body 0
                   (sl\<lparr>req_headers := foldl (\<lambda>h l. parseHeaderLine l h) [] ls\<rparr>) of
              Inl e \<Rightarrow> Inl (InvalidBody e)
            | Inr r \<Rightarrow> Inr r)"
proof -
  let ?raw = "start @ CRLF @ header_block ls @ CRLFCRLF @ body"
  let ?pre = "start @ CRLF"
  have len_pre: "length ?pre = length start + 2"
    by (simp add: CRLF_def)
  have f1: "find_sub CRLF ?raw = Some (length start)"
    using start by (rule find_sub_CRLF_line)
  have f2: "find_from CRLFCRLF ?raw (length start + 2)
            = Some (length (header_block ls) + (length start + 2))"
    using find_from_append [of CRLFCRLF ?pre "header_block ls @ CRLFCRLF @ body"]
          find_sub_CRLFCRLF_block [OF ls, of body] len_pre
    by simp
  have s0: "substr ?raw 0 (length start) = start"
    by (simp add: substr_def)
  have blk: "substr ?raw (length start + 2)
               (length (header_block ls) + (length start + 2) - (length start + 2))
             = header_block ls"
    using len_pre by (simp add: substr_def)
  have hdrs: "parseHeaders_loop (header_block ls) 0 [] = foldl (\<lambda>h l. parseHeaderLine l h) [] ls"
    using parseHeaders_loop_lines [OF ls, of "[]" "[]"] by simp
  have sl0: "req_headers sl = []"
    using parseStartLine_headers [OF sl] by (simp add: HttpRequest_new_def)
  have len4: "length (start @ CRLF @ header_block ls @ CRLFCRLF)
              = length (header_block ls) + (length start + 2) + 4"
    by (simp add: CRLF_def CRLFCRLF_def)
  have body: "parseBody ?raw (length (header_block ls) + (length start + 2) + 4) r
              = parseBody body 0 r" for r
    using parseBody_shift [of "start @ CRLF @ header_block ls @ CRLFCRLF" body r]
    unfolding len4 by simp
  show ?thesis
    by (simp only: parse_def f1 s0 sl f2 blk Let_def option.case parseHeaders_def hdrs sl0 body)
qed


section \<open>The request parser and header lines without a colon\<close>

text \<open>
  C10. Take a request text whose start line parses, followed by a header block of non-empty lines
  (none holding a carriage return), one of which, \<open>bad\<close>, has no colon. The parser records no
  header for \<open>bad\<close>: the result is the body stage applied to the request whose headers are those
  of the other lines, so whether the parse succeeds depends only on the body stage; and when
  other header lines exist the result equals the parse of the same text without \<open>bad\<close>.
\<close>

theorem parse_skips_line_without_colon:
  assumes start: "CHR 0x0D \<notin> set start"
      and sl: "parseStartLine start HttpRequest_new = Some sl"
      and ls: "\<forall>l\<in>set (ls1 @ bad # ls2). l \<noteq> [] \<and> CHR 0x0D \<notin> set l"
      and bad: "CHR '':'' \<notin> set bad"
  shows "parse (start @ CRLF @ header_block (ls1 @ bad # ls2) @ CRLFCRLF @ body)
         = (case parseBody body 0
                   (sl\<lparr>req_headers := foldl (\<lambda>h l. parseHeaderLine l h) [] (ls1 @ ls2)\<rparr>) of
              Inl e \<Rightarrow> Inl (InvalidBody e)
            | Inr r \<Rightarrow> Inr r)
       \<and> (ls1 @ ls2 \<noteq> [] \<longrightarrow>
            parse (start @ CRLF @ header_block (ls1 @ bad # ls2) @ CRLFCRLF @ body)
            = parse (start @ CRLF @ header_block (ls1 @ ls2) @ CRLFCRLF @ body))"
proof -
  have ne: "ls1 @ bad # ls2 \<noteq> []" by simp
  have with_line: "parse (start @ CRLF @ header_block (ls1 @ bad # ls2) @ CRLFCRLF @ body)
         = (case parseBody body 0
                   (sl\<lparr>req_headers := foldl (\<lambda>h l. parseHeaderLine l h) [] (ls1 @ ls2)\<rparr>) of
              Inl e \<Rightarrow> Inl (InvalidBody e)
            | Inr r \<Rightarrow> Inr r)"
    using parse_well_formed [OF start sl ne ls, of body] foldl_skip_line [OF bad, of "[]" ls1 ls2]
    by simp
  have without: "parse (start @ CRLF @ header_block (ls1 @ ls2) @ CRLFCRLF @ body)
         = (case parseBody body 0
                   (sl\<lparr>req_headers := foldl (\<lambda>h l. parseHeaderLine l h) [] (ls1 @ ls2)\<rparr>) of
              Inl e \<Rightarrow> Inl (InvalidBody e)
            | Inr r \<Rightarrow> Inr r)" if "ls1 @ ls2 \<noteq> []"
  proof -
    have "\<forall>l\<in>set (ls1 @ ls2). l \<noteq> [] \<and> CHR 0x0D \<notin> set l"
      using ls by auto
    from parse_well_formed [OF start sl that this, of body] show ?thesis .
  qed
  show ?thesis
    using with_line without by simp
qed

theorem parse_skips_line_without_colon_witness:
  "parse (''GET / HTTP/1.1'' @ CRLF
            @ header_block ([''Host: x''] @ ''no colon here'' # [''Accept: text/html''])
            @ CRLFCRLF @ [])
   = Inr \<lparr>req_method = ''GET'', req_uri = ''/'', req_version = ''HTTP/1.1'',
           req_headers = [(''Host'', ''x''), (''Accept'', ''text/html'')], req_body = []\<rparr>"
proof -
  let ?sl = "\<lparr>req_method = ''GET'', req_uri = ''/'', req_version = ''HTTP/1.1'',
              req_headers = [], req_body = []\<rparr>"
  have sl: "parseStartLine ''GET / HTTP/1.1'' HttpRequest_new = Some ?sl"
    by (simp add: parseStartLine_def find_from_def substr_def substr_from_def
          method_fromString_def method_isValid_def HttpRequest_new_def)
  have start: "CHR 0x0D \<notin> set ''GET / HTTP/1.1''" by simp
  have ls: "\<forall>l\<in>set ([''Host: x''] @ ''no colon here'' # [''Accept: text/html'']).
              l \<noteq> [] \<and> CHR 0x0D \<notin> set l" by simp
  have bad: "CHR '':'' \<notin> set ''no colon here''" by simp
  have hs: "foldl (\<lambda>h l. parseHeaderLine l h) [] ([''Host: x''] @ [''Accept: text/html''])
            = [(''Host'', ''x''), (''Accept'', ''text/html'')]"
    by (simp add: parseHeaderLine_def find_first_not_of_space_def substr_def substr_from_def
          setHeader_def toLower_def toLower_char_def)
  have "parse (''GET / HTTP/1.1'' @ CRLF
            @ header_block ([''Host: x''] @ ''no colon here'' # [''Accept: text/html''])
            @ CRLFCRLF @ [])
        = (case parseBody [] 0
                   (?sl\<lparr>req_headers := foldl (\<lambda>h l. parseHeaderLine l h) []
                                             ([''Host: x''] @ [''Accept: text/html''])\<rparr>) of
              Inl e \<Rightarrow> Inl (InvalidBody e)
            | Inr r \<Rightarrow> Inr r)"
    using parse_skips_line_without_colon [OF start sl ls bad, of "[]"] by (rule conjunct1)
  also have "\<dots> = Inr \<lparr>req_method = ''GET'', req_uri = ''/'', req_version = ''HTTP/1.1'',
           req_headers = [(''Host'', ''x''), (''Accept'', ''text/html'')], req_body = []\<rparr>"
    unfolding hs by (simp add: parseBody_def)
  finally show ?thesis .
qed



section \<open>Evaluating the model on concrete inputs\<close>

lemmas string_defs = find_from_def substr_def substr_from_def find_first_not_of_space_def
  toLower_def toLower_char_def CRLF_def CRLFCRLF_def

lemma to_string_digit: "n < 10 \<Longrightarrow> to_string n = [digit_char n]"
  by (subst to_string.simps) simp

lemma to_string_step:
  "10 \<le> n \<Longrightarrow> to_string n = to_string (n div 10) @ [digit_char (n mod 10)]"
  by (subst to_string.simps) simp

lemmas to_string_eval = to_string_digit to_string_step digit_char_def

lemma status_getCode_500: "status_getCode INTERNAL_SERVER_ERROR = ''500''"
  by (simp add: status_getCode_def to_string.simps [of 500] to_string.simps [of 50]
        to_string.simps [of 5] digit_char_def)

lemma sendErrorResponse_new:
  "sendErrorResponse HttpResponse_new code
     = [Bytes (status_getCode code @ '' '' @ status_toString code)]"
  by (simp add: sendErrorResponse_def composeErrorMessage_def Let_def resp_setHeader_def)


section \<open>The keep-alive cap\<close>

lemma processRequests_loop_bound:
  "requestCount < 100 \<Longrightarrow>
   fst (processRequests_loop e waitForData inputs requestCount wire) \<le> 100"
proof (induction e waitForData inputs requestCount wire rule: processRequests_loop.induct)
  case (1 e waitForData inputs requestCount wire)
  show ?case
  proof (cases "waitForData requestCount")
    case False
    with 1(2) show ?thesis
      by (simp add: processRequests_loop.simps [of e waitForData inputs requestCount wire])
  next
    case True
    show ?thesis
    proof (cases "MAX_KEEP_ALIVE_REQUESTS \<le> requestCount + 1")
      case full: True
      with True 1(2) show ?thesis
        by (simp add: processRequests_loop.simps [of e waitForData inputs requestCount wire]
              Let_def MAX_KEEP_ALIVE_REQUESTS_def)
    next
      case more: False
      show ?thesis
      proof (cases "snd (handleRequest e (inputs requestCount))")
        case keep: True
        have "fst (processRequests_loop e waitForData inputs (requestCount + 1)
                     (wire @ fst (handleRequest e (inputs requestCount)))) \<le> 100"
          using True more keep
          by (intro 1(1) [OF _ refl refl refl refl]) (simp_all add: MAX_KEEP_ALIVE_REQUESTS_def)
        with True more keep show ?thesis
          by (simp add: processRequests_loop.simps [of e waitForData inputs requestCount wire]
                Let_def)
      next
        case close: False
        with True more 1(2) show ?thesis
          by (simp add: processRequests_loop.simps [of e waitForData inputs requestCount wire]
                Let_def MAX_KEEP_ALIVE_REQUESTS_def)
      qed
    qed
  qed
qed

text \<open>
  C8. Whatever the client does (which cycles bring data, how each read ends), the loop of
  \<^verbatim>\<open>processRequests\<close> ends with a request count of at most 100: the count is the number of
  \<^verbatim>\<open>handleRequest\<close> calls, that is of completed request/response cycles, on the connection.
\<close>

theorem processRequests_at_most_100:
  "fst (processRequests e waitForData inputs) \<le> 100"
  by (simp add: processRequests_def processRequests_loop_bound)

text \<open>
  The bound is reached: a client that always has data ready and whose every exchange keeps the
  connection alive is served exactly 100 cycles.
\<close>

lemma processRequests_loop_reaches_cap:
  "\<forall>n. waitForData n \<Longrightarrow> \<forall>n. snd (handleRequest e (inputs n)) \<Longrightarrow> requestCount < 100 \<Longrightarrow>
   fst (processRequests_loop e waitForData inputs requestCount wire) = 100"
proof (induction e waitForData inputs requestCount wire rule: processRequests_loop.induct)
  case (1 e waitForData inputs requestCount wire)
  from 1(2) have w: "waitForData requestCount" by simp
  from 1(3) have k: "snd (handleRequest e (inputs requestCount))" by simp
  show ?case
  proof (cases "MAX_KEEP_ALIVE_REQUESTS \<le> requestCount + 1")
    case True
    with w k 1(4) show ?thesis
      by (simp add: processRequests_loop.simps [of e waitForData inputs requestCount wire]
            Let_def MAX_KEEP_ALIVE_REQUESTS_def)
  next
    case False
    have "fst (processRequests_loop e waitForData inputs (requestCount + 1)
                 (wire @ fst (handleRequest e (inputs requestCount)))) = 100"
      using False w k 1(2,3)
      by (intro 1(1) [OF _ refl refl refl refl]) (simp_all add: MAX_KEEP_ALIVE_REQUESTS_def)
    with False w k show ?thesis
      by (simp add: processRequests_loop.simps [of e waitForData inputs requestCount wire]
            Let_def)
  qed
qed

lemma processRequests_reaches_cap:
  "\<forall>n. waitForData n \<Longrightarrow> \<forall>n. snd (handleRequest e (inputs n)) \<Longrightarrow>
   fst (processRequests e waitForData inputs) = 100"
  by (simp add: processRequests_def processRequests_loop_reaches_cap)


section \<open>Unknown method tokens\<close>

lemma parseStartLine_unknown_method:
  assumes "CHR '' '' \<notin> set tok" "CHR '' '' \<notin> set target"
      and "method_fromString tok = INVALID"
  shows "parseStartLine (tok @ '' '' @ target @ '' '' @ ver) r = None"
proof -
  have f1: "find_sub '' '' (tok @ '' '' @ target @ '' '' @ ver) = Some (length tok)"
    using assms(1) by (simp add: find_sub_skip)
  have f2: "find_from '' '' (tok @ '' '' @ target @ '' '' @ ver) (length tok + 1)
            = Some (length target + (length tok + 1))"
    using assms(2) by (simp add: find_from_def find_sub_skip)
  have m: "substr (tok @ '' '' @ target @ '' '' @ ver) 0 (length tok) = tok"
    by (simp add: substr_def)
  show ?thesis
    by (simp only: parseStartLine_def f1 f2 m option.case Let_def assms(3))
       (simp add: method_isValid_def)
qed

text \<open>
  C3, as the code has it. A request whose start line has its two spaces and its CRLF, but
  whose method token is not a known method, is a parse failure: \<^verbatim>\<open>parseStartLine\<close> returns
  \<^verbatim>\<open>false\<close>, \<^verbatim>\<open>parse\<close> fails at the start line, no request is surfaced to the builders, and
  \<^verbatim>\<open>handleRequest\<close> returns through its exception handler with keep-alive false.
\<close>

theorem parse_rejects_unknown_method:
  assumes "CHR '' '' \<notin> set tok" "CHR '' '' \<notin> set target"
      and "CHR 0x0D \<notin> set (tok @ target @ ver)"
      and "method_fromString tok = INVALID"
  shows "parse (tok @ '' '' @ target @ '' '' @ ver @ CRLF @ rest) = Inl InvalidStartLine
         \<and> snd (handleRequest e (RequestData (tok @ '' '' @ target @ '' '' @ ver @ CRLF @ rest)))
             = False"
proof -
  let ?line = "tok @ '' '' @ target @ '' '' @ ver"
  have cr: "CHR 0x0D \<notin> set ?line"
    using assms(3) by simp
  have f: "find_sub CRLF (?line @ CRLF @ rest) = Some (length ?line)"
    using cr by (rule find_sub_CRLF_line)
  have p: "parse (?line @ CRLF @ rest) = Inl InvalidStartLine"
    unfolding parse_def f
    using parseStartLine_unknown_method [OF assms(1,2,4), of ver HttpRequest_new]
    by (simp add: substr_def)
  then show ?thesis
    by (simp add: handleRequest_def)
qed

text \<open>The theorem at the request \<^verbatim>\<open>PUT /index.html HTTP/1.1\<close> with one header.\<close>

theorem parse_rejects_unknown_method_witness:
  "parse (''PUT'' @ '' '' @ ''/index.html'' @ '' '' @ ''HTTP/1.1'' @ CRLF @ ''Host: x'' @ CRLFCRLF)
     = Inl InvalidStartLine
   \<and> snd (handleRequest sample_env
          (RequestData (''PUT'' @ '' '' @ ''/index.html'' @ '' '' @ ''HTTP/1.1'' @ CRLF
                          @ ''Host: x'' @ CRLFCRLF))) = False"
proof -
  have 1: "CHR '' '' \<notin> set ''PUT''" by simp
  have 2: "CHR '' '' \<notin> set ''/index.html''" by simp
  have 3: "CHR 0x0D \<notin> set (''PUT'' @ ''/index.html'' @ ''HTTP/1.1'')" by simp
  have 4: "method_fromString ''PUT'' = INVALID" by (simp add: method_fromString_def)
  show ?thesis
    by (rule parse_rejects_unknown_method [OF 1 2 3 4])
qed

text \<open>
  C3 as stated fails at the spec's own example of an unknown method: \<^verbatim>\<open>PUT\<close> maps to the
  sentinel, the parse fails at the start line, and the handler's answer is the body of a 500,
  not a 501 response.
\<close>

theorem parse_rejects_PUT:
  "method_fromString ''PUT'' = INVALID
   \<and> parse (''PUT /index.html HTTP/1.1'' @ CRLF @ ''Host: x'' @ CRLFCRLF) = Inl InvalidStartLine
   \<and> handleRequest sample_env
        (RequestData (''PUT /index.html HTTP/1.1'' @ CRLF @ ''Host: x'' @ CRLFCRLF))
       = ([Bytes ''500 Internal Server Error''], False)"
  by (simp add: handleRequest_def parse_def parseStartLine_def string_defs method_fromString_def
        method_isValid_def HttpRequest_new_def sendErrorResponse_new status_getCode_500)


section \<open>Content-Length and the body\<close>

text \<open>
  C4 fails on the code when no byte follows the header block: \<^verbatim>\<open>parseBody\<close> then sets an empty
  body and returns \<^verbatim>\<open>true\<close> without looking at Content-Length. The request below announces five
  body bytes and carries none; it parses, with an empty body.
\<close>

theorem parse_accepts_missing_body:
  "parse (''POST /submit HTTP/1.1'' @ CRLF @ ''Content-Length: 5'' @ CRLFCRLF)
     = Inr \<lparr>req_method = ''POST'', req_uri = ''/submit'', req_version = ''HTTP/1.1'',
             req_headers = [(''Content-Length'', ''5'')], req_body = []\<rparr>"
  by (simp add: parse_def parseStartLine_def string_defs method_fromString_def
        method_isValid_def HttpRequest_new_def parseHeaders_def parseHeaders_loop.simps
        parseHeaderLine_def setHeader_def parseBody_def)

text \<open>
  When at least one byte follows the header block, an accepted request with a Content-Length
  that \<^verbatim>\<open>std::stoul\<close> reads as \<open>n\<close> has a body of exactly \<open>n\<close> bytes.
\<close>

lemma parseBody_length:
  assumes "bodyStart < length rawData"
      and "getHeader (req_headers r) ''Content-Length'' = Some h"
      and "stoul h = Inr n"
      and "parseBody rawData bodyStart r = Inr r'"
  shows "length (req_body r') = n"
  using assms
  by (auto simp: parseBody_def substr_def split: if_splits)


section \<open>Path containment\<close>

text \<open>
  C1 fails on the code for a sibling of the document root whose name starts with the root's
  name: \<^verbatim>\<open>/srv/www-backup\<close> beside the root \<^verbatim>\<open>/srv/www\<close>. The canonical target has the root as
  a prefix of its text, so the check passes and the resolver returns a path that is not under
  \<^verbatim>\<open>/srv/www/\<close>.
\<close>

theorem sanitizePath_sibling_directory:
  "sanitizePath sample_env ''/../www-backup/secret.html'' = Inr ''/srv/www-backup/secret.html''
   \<and> \<not> prefix ''/srv/www/'' ''/srv/www-backup/secret.html''"
  by (simp add: sanitizePath_def sample_env_def)

text \<open>
  What the check does establish: a returned path has the canonical root as a prefix of its text
  and names a regular file.
\<close>

lemma find_sub_zero_iff: "find_sub pat s = Some 0 \<longleftrightarrow> prefix pat s"
  by (cases s) (auto split: if_splits)

lemma sanitizePath_text_prefix:
  assumes "sanitizePath e uri = Inr fullPath"
  shows "\<exists>root st. realpath e (getRootFolder e) = Some root \<and> prefix root fullPath
                   \<and> stat e fullPath = Some st \<and> is_reg st"
  using assms
  by (auto simp: sanitizePath_def Let_def find_sub_zero_iff split: option.splits if_splits)


section \<open>Error responses on the wire\<close>

text \<open>
  C2 fails on the code for the errors that \<^verbatim>\<open>sendErrorResponse\<close> reports: for every status code
  the only bytes it sends are the body \<^verbatim>\<open><code> <reason>\<close>, with no status line and no headers.
  A request that does not parse is answered this way.
\<close>

theorem sendErrorResponse_body_only:
  "sendErrorResponse HttpResponse_new code
     = [Bytes (status_getCode code @ '' '' @ status_toString code)]
   \<and> handleRequest sample_env (RequestData (''GET /'' @ CRLFCRLF))
       = ([Bytes ''500 Internal Server Error''], False)"
  by (simp add: handleRequest_def parse_def parseStartLine_def string_defs
        sendErrorResponse_new status_getCode_500)

text \<open>
  The sibling path, for a status code that a builder returns, sends the whole response through
  \<^verbatim>\<open>sendResponse\<close>: here the 404 for a file that does not exist.
\<close>

lemma status_getCode_404: "status_getCode NOT_FOUND = ''404''"
  by (simp add: status_getCode_def to_string_eval)

lemma sendResponse_dynamic:
  "\<not> isStatic r \<Longrightarrow>
   sendResponse e r = ([Bytes (composeResponseString r), Bytes (resp_body r)], False)"
  by (simp add: sendResponse_def)

lemma handleRequest_builder_error:
  "handleRequest sample_env (RequestData (''GET /nope HTTP/1.1'' @ CRLF @ ''Host: x'' @ CRLFCRLF))
     = ([Bytes (''HTTP/1.1 404 Not Found'' @ CRLF
                 @ ''Content-Type: text/html'' @ CRLF
                 @ ''Content-Length: 13'' @ CRLF
                 @ ''Connection: close'' @ CRLFCRLF),
         Bytes ''404 Not Found''], True)"
proof -
  let ?req = "\<lparr>req_method = ''GET'', req_uri = ''/nope'', req_version = ''HTTP/1.1'',
               req_headers = [(''Host'', ''x'')], req_body = []\<rparr>"
  have p: "parse (''GET /nope HTTP/1.1'' @ CRLF @ ''Host: x'' @ CRLFCRLF) = Inr ?req"
    by (simp add: parse_def parseStartLine_def string_defs method_fromString_def
        method_isValid_def HttpRequest_new_def parseHeaders_def parseHeaders_loop.simps
        parseHeaderLine_def setHeader_def parseBody_def)
  have b: "buildResult sample_env ?req = Inl NOT_FOUND"
    by (simp add: buildResult_def createBuilder_def method_fromString_def
          GetResponseBuilder_buildResponse_def sanitizePath_def sample_env_def)
  have t: "to_string (length ''404 Not Found'') = ''13''"
    by (simp add: to_string_eval numeral_2_eq_2 [symmetric])
  have c: "fst (composeErrorMessage HttpResponse_new NOT_FOUND)
           = \<lparr>resp_status = NOT_FOUND, isStatic = False, resp_version = ''HTTP/1.1'',
              resp_headers = [(''Content-Type'', ''text/html''), (''Content-Length'', ''13''),
                              (''Connection'', ''close'')],
              resp_body = ''404 Not Found''\<rparr>"
    unfolding composeErrorMessage_def Let_def status_getCode_404
    by (simp add: resp_setHeader_def setHeader_def HttpResponse_new_def default_version_def
          toLower_def toLower_char_def) (simp add: t [simplified])
  have r: "respond sample_env ?req
           = (\<lparr>resp_status = NOT_FOUND, isStatic = False, resp_version = ''HTTP/1.1'',
              resp_headers = [(''Content-Type'', ''text/html''), (''Content-Length'', ''13''),
                              (''Connection'', ''close'')],
              resp_body = ''404 Not Found''\<rparr>, True)"
    by (simp add: respond_def b c resp_setHeader_def setHeader_def toLower_def toLower_char_def)
  have s: "composeResponseString \<lparr>resp_status = NOT_FOUND, isStatic = False, resp_version = ''HTTP/1.1'',
              resp_headers = [(''Content-Type'', ''text/html''), (''Content-Length'', ''13''),
                              (''Connection'', ''close'')],
              resp_body = ''404 Not Found''\<rparr>
           = ''HTTP/1.1 404 Not Found'' @ CRLF
                 @ ''Content-Type: text/html'' @ CRLF
                 @ ''Content-Length: 13'' @ CRLF
                 @ ''Connection: close'' @ CRLFCRLF"
    by (simp add: composeResponseString_def getStatusLine_def header_lines_def to_string_eval
          CRLF_def CRLFCRLF_def)
  have sd: "sendResponse sample_env \<lparr>resp_status = NOT_FOUND, isStatic = False, resp_version = ''HTTP/1.1'',
              resp_headers = [(''Content-Type'', ''text/html''), (''Content-Length'', ''13''),
                              (''Connection'', ''close'')],
              resp_body = ''404 Not Found''\<rparr>
           = ([Bytes (''HTTP/1.1 404 Not Found'' @ CRLF
                 @ ''Content-Type: text/html'' @ CRLF
                 @ ''Content-Length: 13'' @ CRLF
                 @ ''Connection: close'' @ CRLFCRLF),
               Bytes ''404 Not Found''], False)"
    by (subst sendResponse_dynamic) (simp_all only: s HttpResponse.simps, simp_all)
  show ?thesis
    by (simp only: handleRequest_def recv_outcome.case p sum.case Let_def r fst_conv snd_conv
          sd if_False)
qed


section \<open>Failures of the system's send\<close>

text \<open>
  C9 fails on the code for a failure that is not would-block. With the buffer \<^verbatim>\<open>abc\<close>: after two
  bytes are accepted, a failure with \<^verbatim>\<open>errno\<close> 4 moves \<^verbatim>\<open>totalSent\<close> back by one, the next call
  sends \<^verbatim>\<open>bc\<close>, and the function returns 3 with \<^verbatim>\<open>abbc\<close> on the wire; a failure with \<^verbatim>\<open>errno\<close> 32
  on the first call wraps \<^verbatim>\<open>totalSent\<close> and the function returns \<open>-1\<close>. No error object is raised.
\<close>

theorem Socket_send_swallows_failure:
  "Socket_send [Sent 2, Failed 4, Sent 2] ''abc'' = Some (''abbc'', 3)
   \<and> Socket_send [Failed 32] ''abc'' = Some ([], - 1)"
  by (simp add: Socket_send_def)

text \<open>Would-block results are retried until the whole buffer is sent.\<close>

lemma Socket_send_retries_would_block:
  "Socket_send [WouldBlock, Sent 1, WouldBlock, Sent 2] ''abc'' = Some (''abc'', 3)"
  by (simp add: Socket_send_def)

section \<open>The Connection header of a response\<close>

lemma getHeader_append:
  "getHeader (hs @ [(k, v)]) k' =
     (case getHeader hs k' of
        Some x \<Rightarrow> Some x
      | None \<Rightarrow> (if toLower k = toLower k' then Some v else None))"
  by (induction hs) auto

lemma getHeader_setHeader:
  "getHeader (setHeader k v hs) k' =
     (case getHeader hs k' of
        Some x \<Rightarrow> Some x
      | None \<Rightarrow> (if toLower k = toLower k' \<and> getHeader hs k = None then Some v else None))"
  by (auto simp: setHeader_def getHeader_append split: option.splits)

lemma getHeader_same_key:
  "toLower k = toLower k' \<Longrightarrow> getHeader hs k = getHeader hs k'"
  by (induction hs) auto

lemma getHeader_resp_setHeader_same:
  "getHeader (resp_headers (resp_setHeader k v r)) k =
     Some (case getHeader (resp_headers r) k of Some old \<Rightarrow> old | None \<Rightarrow> v)"
  by (simp add: resp_setHeader_def getHeader_setHeader split: option.splits)

lemma lower_names:
  "toLower ''Content-Type'' \<noteq> toLower ''Connection''"
  "toLower ''Content-Length'' \<noteq> toLower ''Connection''"
  "toLower ''File-Path'' \<noteq> toLower ''Connection''"
  by (simp_all add: toLower_def toLower_char_def)

lemma composeErrorMessage_Connection:
  "getHeader (resp_headers (fst (composeErrorMessage HttpResponse_new code))) ''Connection''
     = Some ''close''"
  by (simp add: composeErrorMessage_def Let_def resp_setHeader_def HttpResponse_new_def default_version_def
        getHeader_setHeader lower_names)

lemma Get_Connection:
  "GetResponseBuilder_buildResponse e request = Inr r \<Longrightarrow>
   getHeader (resp_headers r) ''Connection'' = None"
  by (auto simp: GetResponseBuilder_buildResponse_def Let_def resp_setHeader_def
        HttpResponse_new_def default_version_def getHeader_setHeader lower_names
        split: sum.splits option.splits if_splits)

lemma Post_Connection:
  "PostResponseBuilder_buildResponse request = Inr r \<Longrightarrow>
   getHeader (resp_headers r) ''Connection'' = Some ''close'' \<and> req_uri request = ''/submit''"
  by (auto simp: PostResponseBuilder_buildResponse_def Let_def resp_setHeader_def
        HttpResponse_new_def default_version_def getHeader_setHeader lower_names
        split: if_splits)

lemma buildResult_Connection:
  "buildResult e request = Inr r \<Longrightarrow>
   getHeader (resp_headers r) ''Connection''
     = (if method_fromString (req_method request) = POST \<and> req_uri request = ''/submit''
        then Some ''close'' else None)"
  by (cases "method_fromString (req_method request)")
     (auto simp: buildResult_def createBuilder_def dest: Get_Connection Post_Connection)

lemma sendResponse_head:
  "\<exists>rest. fst (sendResponse e r) = Bytes (composeResponseString r) # rest"
  by (auto simp: sendResponse_def Let_def split: option.splits sum.splits)

text \<open>
  C5, as the code has it. The response that \<^verbatim>\<open>handleRequest\<close> passes to \<^verbatim>\<open>sendResponse\<close> (whose
  serialised headers are the first bytes sent) carries a \<^verbatim>\<open>Connection\<close> header. Its value is
  \<^verbatim>\<open>close\<close> when the request has a \<^verbatim>\<open>Connection\<close> header with any value other than the exact text
  \<^verbatim>\<open>keep-alive\<close>, when the request is a POST to \<^verbatim>\<open>/submit\<close>, or when the builder returned a status
  code and the response is the composed error response; otherwise it is \<^verbatim>\<open>keep-alive\<close>.
\<close>

theorem connection_header_sent:
  "getHeader (resp_headers (fst (respond e request))) ''Connection'' =
     Some (if (case getHeader (req_headers request) ''Connection'' of
                 Some v \<Rightarrow> v \<noteq> ''keep-alive''
               | None \<Rightarrow> False)
              \<or> (method_fromString (req_method request) = POST \<and> req_uri request = ''/submit'')
              \<or> isl (buildResult e request)
           then ''close'' else ''keep-alive'')
   \<and> (\<exists>rest. fst (sendResponse e (fst (respond e request)))
                 = Bytes (composeResponseString (fst (respond e request))) # rest)"
proof (cases "buildResult e request")
  case (Inl code)
  then show ?thesis
    using sendResponse_head [of e "fst (respond e request)"]
    by (simp add: respond_def Let_def getHeader_resp_setHeader_same composeErrorMessage_Connection
          split: option.splits)
next
  case (Inr r)
  from buildResult_Connection [OF Inr] Inr sendResponse_head [of e "fst (respond e request)"]
  show ?thesis
    by (simp add: respond_def Let_def getHeader_resp_setHeader_same split: option.splits)
qed

text \<open>
  C5 as stated (close exactly when the client asked for close, after POST \<^verbatim>\<open>/submit\<close>, or on an
  error response) fails for a client that sends \<^verbatim>\<open>Connection: Keep-Alive\<close>: the GET succeeds with
  200 and the response says \<^verbatim>\<open>Connection: close\<close>.
\<close>

theorem connection_close_for_Keep_Alive:
  "parse (''GET / HTTP/1.1'' @ CRLF @ ''Connection: Keep-Alive'' @ CRLFCRLF)
     = Inr \<lparr>req_method = ''GET'', req_uri = ''/'', req_version = ''HTTP/1.1'',
             req_headers = [(''Connection'', ''Keep-Alive'')], req_body = []\<rparr>
   \<and> buildResult sample_env
        \<lparr>req_method = ''GET'', req_uri = ''/'', req_version = ''HTTP/1.1'',
         req_headers = [(''Connection'', ''Keep-Alive'')], req_body = []\<rparr>
       = Inr \<lparr>resp_status = OK, isStatic = False, resp_version = ''HTTP/1.1'',
               resp_headers = [(''Content-Type'', ''text/html''), (''Content-Length'', ''9'')],
               resp_body = ''<p>Hi</p>''\<rparr>
   \<and> getHeader (resp_headers (fst (respond sample_env
        \<lparr>req_method = ''GET'', req_uri = ''/'', req_version = ''HTTP/1.1'',
         req_headers = [(''Connection'', ''Keep-Alive'')], req_body = []\<rparr>))) ''Connection''
       = Some ''close''"
proof -
  let ?req = "\<lparr>req_method = ''GET'', req_uri = ''/'', req_version = ''HTTP/1.1'',
         req_headers = [(''Connection'', ''Keep-Alive'')], req_body = []\<rparr>"
  have p: "parse (''GET / HTTP/1.1'' @ CRLF @ ''Connection: Keep-Alive'' @ CRLFCRLF) = Inr ?req"
    by (simp add: parse_def parseStartLine_def string_defs method_fromString_def
        method_isValid_def HttpRequest_new_def parseHeaders_def parseHeaders_loop.simps
        parseHeaderLine_def setHeader_def parseBody_def)
  have s: "sanitizePath sample_env ''/'' = Inr ''/srv/www/index.html''"
    by (simp add: sanitizePath_def sample_env_def)
  have b: "buildResult sample_env ?req
       = Inr \<lparr>resp_status = OK, isStatic = False, resp_version = ''HTTP/1.1'',
               resp_headers = [(''Content-Type'', ''text/html''), (''Content-Length'', ''9'')],
               resp_body = ''<p>Hi</p>''\<rparr>"
    by (simp add: buildResult_def createBuilder_def method_fromString_def
          GetResponseBuilder_buildResponse_def s)
       (simp add: sample_env_def Let_def mime_fromExtension_def path_extension_def substr_from_def
          MAX_FILE_SIZE_def readFile_def resp_setHeader_def setHeader_def HttpResponse_new_def default_version_def
          toLower_def toLower_char_def to_string_eval)
  have r: "getHeader (resp_headers (fst (respond sample_env ?req))) ''Connection'' = Some ''close''"
    by (simp add: respond_def b resp_setHeader_def setHeader_def toLower_def toLower_char_def)
  from p b r show ?thesis by simp
qed


section \<open>Form pairs without an equals sign\<close>

lemma find_sub_char_absent: "c \<notin> set s \<Longrightarrow> find_sub [c] s = None"
  using find_sub_absent [of "[c]" s] by simp

lemma parsePair_no_equals:
  "CHR ''='' \<notin> set keyValue \<Longrightarrow> parsePair keyValue = ([], [])"
  by (simp add: parsePair_def find_sub_char_absent)

lemma getline_tokens_single:
  "CHR ''&'' \<notin> set s \<Longrightarrow> cur @ s \<noteq> [] \<Longrightarrow> getline_tokens s cur = [cur @ s]"
  by (induction s arbitrary: cur) auto

lemma Post_content_type:
  "getHeader (req_headers request) ''Content-Type'' = Some ''application/x-www-form-urlencoded''
   \<Longrightarrow> req_uri request = ''/submit''
   \<Longrightarrow> PostResponseBuilder_buildResponse request
       = Inr \<lparr>resp_status = OK, isStatic = False, resp_version = ''HTTP/1.1'',
               resp_headers =
                 [(''Content-Type'', ''text/html''),
                  (''Content-Length'',
                   to_string (length (formResponseBody (parseFormData (req_body request))))),
                  (''Connection'', ''close'')],
               resp_body = formResponseBody (parseFormData (req_body request))\<rparr>"
  by (simp add: PostResponseBuilder_buildResponse_def Let_def resp_setHeader_def setHeader_def
        HttpResponse_new_def default_version_def toLower_def toLower_char_def)

text \<open>
  C6, as the code has it. For every pair without \<^verbatim>\<open>=\<close>, whatever the form data read so far, the
  loop body stores the empty value under the empty key: the text of the pair is dropped. A body
  that consists of one such pair is echoed as the line \<^verbatim>\<open>: \<close> between the heading and the final
  line.
\<close>

theorem pair_without_equals_has_empty_key:
  assumes "CHR ''='' \<notin> set keyValue"
  shows "storePair formData keyValue = AList.update [] [] formData
         \<and> (keyValue \<noteq> [] \<and> CHR ''&'' \<notin> set keyValue
              \<and> getHeader (req_headers request) ''Content-Type''
                    = Some ''application/x-www-form-urlencoded''
              \<and> req_uri request = ''/submit'' \<and> req_body request = keyValue
            \<longrightarrow> (\<exists>r. PostResponseBuilder_buildResponse request = Inr r
                     \<and> resp_body r = ''Received form data:'' @ CRLF @ '': '' @ CRLF
                                       @ ''POST Successful!''))"
proof -
  have step: "storePair formData keyValue = AList.update [] [] formData"
    using assms by (simp add: storePair_def parsePair_no_equals)
  have echo: "\<exists>r. PostResponseBuilder_buildResponse request = Inr r
                     \<and> resp_body r = ''Received form data:'' @ CRLF @ '': '' @ CRLF
                                       @ ''POST Successful!''"
    if "keyValue \<noteq> []" "CHR ''&'' \<notin> set keyValue"
       "getHeader (req_headers request) ''Content-Type'' = Some ''application/x-www-form-urlencoded''"
       "req_uri request = ''/submit''" "req_body request = keyValue"
  proof -
    have "parseFormData keyValue = [([], [])]"
      using that(1,2) assms
      by (simp add: parseFormData_def getline_tokens_single storePair_def parsePair_no_equals)
    then have "formResponseBody (parseFormData (req_body request))
               = ''Received form data:'' @ CRLF @ '': '' @ CRLF @ ''POST Successful!''"
      using that(5) by (simp add: formResponseBody_def header_lines_def)
    with Post_content_type [OF that(3,4)] show ?thesis by simp
  qed
  from step echo show ?thesis by blast
qed

text \<open>The theorem at the pair \<^verbatim>\<open>flag\<close>, after \<^verbatim>\<open>name=ada\<close> and as a whole body.\<close>

theorem pair_without_equals_has_empty_key_witness:
  "storePair [(''name'', ''ada'')] ''flag'' = [(''name'', ''ada''), ([], [])]
   \<and> (\<exists>r. PostResponseBuilder_buildResponse
             \<lparr>req_method = ''POST'', req_uri = ''/submit'', req_version = ''HTTP/1.1'',
              req_headers = [(''Content-Type'', ''application/x-www-form-urlencoded'')],
              req_body = ''flag''\<rparr> = Inr r
          \<and> resp_body r = ''Received form data:'' @ CRLF @ '': '' @ CRLF @ ''POST Successful!'')"
proof -
  have a: "CHR ''='' \<notin> set ''flag''" by simp
  have b: "''flag'' \<noteq> [] \<and> CHR ''&'' \<notin> set ''flag''
      \<and> getHeader (req_headers \<lparr>req_method = ''POST'', req_uri = ''/submit'', req_version = ''HTTP/1.1'',
              req_headers = [(''Content-Type'', ''application/x-www-form-urlencoded'')],
              req_body = ''flag''\<rparr>) ''Content-Type'' = Some ''application/x-www-form-urlencoded''
      \<and> req_uri \<lparr>req_method = ''POST'', req_uri = ''/submit'', req_version = ''HTTP/1.1'',
              req_headers = [(''Content-Type'', ''application/x-www-form-urlencoded'')],
              req_body = ''flag''\<rparr> = ''/submit''
      \<and> req_body \<lparr>req_method = ''POST'', req_uri = ''/submit'', req_version = ''HTTP/1.1'',
              req_headers = [(''Content-Type'', ''application/x-www-form-urlencoded'')],
              req_body = ''flag''\<rparr> = ''flag''"
    by (simp add: toLower_def toLower_char_def)
  from pair_without_equals_has_empty_key [OF a, of "[(''name'', ''ada'')]"
      "\<lparr>req_method = ''POST'', req_uri = ''/submit'', req_version = ''HTTP/1.1'',
              req_headers = [(''Content-Type'', ''application/x-www-form-urlencoded'')],
              req_body = ''flag''\<rparr>"] b
  show ?thesis by simp
qed

text \<open>
  C6 as stated (the pair text becomes the key) fails at the body \<^verbatim>\<open>flag\<close>: the form data holds
  the empty key only, and \<^verbatim>\<open>flag\<close> is not a key of it.
\<close>

theorem pair_without_equals_not_a_key:
  "parseFormData ''flag'' = [([], [])]
   \<and> map_of (parseFormData ''flag'') ''flag'' = None
   \<and> formResponseBody (parseFormData ''flag'')
       = ''Received form data:'' @ CRLF @ '': '' @ CRLF @ ''POST Successful!''"
proof -
  have p: "parseFormData ''flag'' = [([], [])]"
    by (simp add: parseFormData_def storePair_def parsePair_def)
  show ?thesis
    unfolding p by (simp add: formResponseBody_def header_lines_def)
qed


section \<open>The GET builder on a regular file\<close>

lemma sanitizePath_regular:
  "sanitizePath e uri = Inr p \<Longrightarrow> \<exists>st. stat e p = Some st \<and> is_reg st"
  by (auto simp: sanitizePath_def Let_def split: option.splits if_splits)

text \<open>
  C7, as the code has it. When the URI resolves to a regular file whose extension is in the
  table: above 128 KiB (131072 bytes) the builder returns a static 200 response with an empty
  body and the headers Content-Type, Content-Length (the size from \<^verbatim>\<open>stat\<close>) and File-Path (the
  canonical path); otherwise it reads the file and, when the read succeeds, returns a non-static
  200 response whose body is the content read and whose Content-Length is its length. When the
  read fails the builder returns the status code of \<^verbatim>\<open>readFile\<close>. (The header list is shown in
  the model's order of insertion.)
\<close>

theorem GetResponseBuilder_regular_file:
  assumes path: "sanitizePath e (req_uri request) = Inr validPath"
      and st: "stat e validPath = Some st"
      and mime: "mime_fromExtension (path_extension validPath) = mime" "mime \<noteq> MEDIA_INVALID"
  shows "(MAX_FILE_SIZE < st_size st \<longrightarrow>
            GetResponseBuilder_buildResponse e request =
              Inr \<lparr>resp_status = OK, isStatic = True, resp_version = ''HTTP/1.1'',
                   resp_headers = [(''Content-Type'', mime_toString mime),
                                   (''Content-Length'', to_string (st_size st)),
                                   (''File-Path'', validPath)],
                   resp_body = []\<rparr>)
       \<and> (st_size st \<le> MAX_FILE_SIZE \<longrightarrow>
            GetResponseBuilder_buildResponse e request =
              (case readFile e validPath of
                 Inl code \<Rightarrow> Inl code
               | Inr contentStr \<Rightarrow>
                   Inr \<lparr>resp_status = OK, isStatic = False, resp_version = ''HTTP/1.1'',
                        resp_headers = [(''Content-Type'', mime_toString mime),
                                        (''Content-Length'', to_string (length contentStr))],
                        resp_body = contentStr\<rparr>))
       \<and> MAX_FILE_SIZE = 131072"
proof -
  from sanitizePath_regular [OF path] st have reg: "is_reg st"
    by simp
  have hs1: "setHeader k v [] = [(k, v)]" for k v
    by (simp add: setHeader_def)
  have hs2: "setHeader ''Content-Length'' v [(''Content-Type'', m)]
             = [(''Content-Type'', m), (''Content-Length'', v)]" for v m
    by (simp add: setHeader_def toLower_def toLower_char_def)
  have hs3: "setHeader ''File-Path'' p [(''Content-Type'', m), (''Content-Length'', v)]
             = [(''Content-Type'', m), (''Content-Length'', v), (''File-Path'', p)]" for v m p
    by (simp add: setHeader_def toLower_def toLower_char_def)
  have big: "GetResponseBuilder_buildResponse e request =
              Inr \<lparr>resp_status = OK, isStatic = True, resp_version = ''HTTP/1.1'',
                   resp_headers = [(''Content-Type'', mime_toString mime),
                                   (''Content-Length'', to_string (st_size st)),
                                   (''File-Path'', validPath)],
                   resp_body = []\<rparr>" if "MAX_FILE_SIZE < st_size st"
    using that reg mime
    by (simp add: GetResponseBuilder_buildResponse_def path st Let_def resp_setHeader_def
          HttpResponse_new_def default_version_def hs1 hs2 hs3)
  have small: "GetResponseBuilder_buildResponse e request =
              (case readFile e validPath of
                 Inl code \<Rightarrow> Inl code
               | Inr contentStr \<Rightarrow>
                   Inr \<lparr>resp_status = OK, isStatic = False, resp_version = ''HTTP/1.1'',
                        resp_headers = [(''Content-Type'', mime_toString mime),
                                        (''Content-Length'', to_string (length contentStr))],
                        resp_body = contentStr\<rparr>)" if "st_size st \<le> MAX_FILE_SIZE"
    using that reg mime
    by (simp add: GetResponseBuilder_buildResponse_def path st Let_def resp_setHeader_def
          HttpResponse_new_def default_version_def hs1 hs2 split: sum.splits)
  from big small show ?thesis
    by (simp add: MAX_FILE_SIZE_def)
qed

lemma sample_paths:
  "sanitizePath sample_env ''/big.html'' = Inr ''/srv/www/big.html''"
  "sanitizePath sample_env ''/'' = Inr ''/srv/www/index.html''"
  "sanitizePath sample_env ''/locked.html'' = Inr ''/srv/www/locked.html''"
  by (simp_all add: sanitizePath_def sample_env_def)

lemma sample_stats:
  "stat sample_env ''/srv/www/big.html'' = Some (Stat True 200000)"
  "stat sample_env ''/srv/www/index.html'' = Some (Stat True 9)"
  "stat sample_env ''/srv/www/locked.html'' = Some (Stat True 10)"
  by (simp_all add: sample_env_def)

lemma sample_mimes:
  "mime_fromExtension (path_extension ''/srv/www/big.html'') = TEXT_HTML"
  "mime_fromExtension (path_extension ''/srv/www/index.html'') = TEXT_HTML"
  "mime_fromExtension (path_extension ''/srv/www/locked.html'') = TEXT_HTML"
  by (simp_all add: path_extension_def substr_from_def mime_fromExtension_def)

text \<open>The theorem at the large page and at the index page of the sample tree.\<close>

theorem GetResponseBuilder_regular_file_witness:
  "GetResponseBuilder_buildResponse sample_env (HttpRequest_new\<lparr>req_uri := ''/big.html''\<rparr>)
     = Inr \<lparr>resp_status = OK, isStatic = True, resp_version = ''HTTP/1.1'',
             resp_headers = [(''Content-Type'', ''text/html''),
                             (''Content-Length'', ''200000''),
                             (''File-Path'', ''/srv/www/big.html'')],
             resp_body = []\<rparr>
   \<and> GetResponseBuilder_buildResponse sample_env (HttpRequest_new\<lparr>req_uri := ''/''\<rparr>)
     = Inr \<lparr>resp_status = OK, isStatic = False, resp_version = ''HTTP/1.1'',
             resp_headers = [(''Content-Type'', ''text/html''), (''Content-Length'', ''9'')],
             resp_body = ''<p>Hi</p>''\<rparr>"
proof -
  have u1: "sanitizePath sample_env (req_uri (HttpRequest_new\<lparr>req_uri := ''/big.html''\<rparr>))
            = Inr ''/srv/www/big.html''"
    by (simp add: sample_paths)
  have u2: "sanitizePath sample_env (req_uri (HttpRequest_new\<lparr>req_uri := ''/''\<rparr>))
            = Inr ''/srv/www/index.html''"
    by (simp add: sample_paths)
  have m: "TEXT_HTML \<noteq> MEDIA_INVALID" by simp
  have big: "MAX_FILE_SIZE < st_size (Stat True 200000)"
    by (simp add: MAX_FILE_SIZE_def)
  have small: "st_size (Stat True 9) \<le> MAX_FILE_SIZE"
    by (simp add: MAX_FILE_SIZE_def)
  have t: "to_string (st_size (Stat True 200000)) = ''200000''"
    by (simp add: to_string_eval)
  have r: "readFile sample_env ''/srv/www/index.html'' = Inr ''<p>Hi</p>''"
    by (simp add: readFile_def sample_env_def)
  have t9: "to_string (length ''<p>Hi</p>'') = ''9''"
    by (simp add: to_string_eval)
  from GetResponseBuilder_regular_file [OF u1 sample_stats(1) sample_mimes(1) m] big
  have "GetResponseBuilder_buildResponse sample_env (HttpRequest_new\<lparr>req_uri := ''/big.html''\<rparr>)
     = Inr \<lparr>resp_status = OK, isStatic = True, resp_version = ''HTTP/1.1'',
             resp_headers = [(''Content-Type'', ''text/html''),
                             (''Content-Length'', ''200000''),
                             (''File-Path'', ''/srv/www/big.html'')],
             resp_body = []\<rparr>"
    unfolding t by simp
  moreover
  from GetResponseBuilder_regular_file [OF u2 sample_stats(2) sample_mimes(2) m] small
  have "GetResponseBuilder_buildResponse sample_env (HttpRequest_new\<lparr>req_uri := ''/''\<rparr>)
     = Inr \<lparr>resp_status = OK, isStatic = False, resp_version = ''HTTP/1.1'',
             resp_headers = [(''Content-Type'', ''text/html''), (''Content-Length'', ''9'')],
             resp_body = ''<p>Hi</p>''\<rparr>"
    unfolding r sum.case t9 by simp
  ultimately show ?thesis by simp
qed

text \<open>
  C7 as stated (every small regular file with a known extension gives 200 with the file's
  contents) fails for a file that cannot be opened: the builder answers 403.
\<close>

theorem GetResponseBuilder_unreadable_file:
  "sanitizePath sample_env ''/locked.html'' = Inr ''/srv/www/locked.html''
   \<and> stat sample_env ''/srv/www/locked.html'' = Some (Stat True 10)
   \<and> mime_fromExtension (path_extension ''/srv/www/locked.html'') = TEXT_HTML
   \<and> GetResponseBuilder_buildResponse sample_env
        \<lparr>req_method = ''GET'', req_uri = ''/locked.html'', req_version = ''HTTP/1.1'',
         req_headers = [], req_body = []\<rparr> = Inl FORBIDDEN"
proof -
  have "GetResponseBuilder_buildResponse sample_env
        \<lparr>req_method = ''GET'', req_uri = ''/locked.html'', req_version = ''HTTP/1.1'',
         req_headers = [], req_body = []\<rparr> = Inl FORBIDDEN"
    by (simp add: GetResponseBuilder_buildResponse_def sample_paths sample_stats sample_mimes
          Let_def MAX_FILE_SIZE_def readFile_def)
       (simp add: sample_env_def)
  then show ?thesis
    by (simp add: sample_paths sample_stats sample_mimes)
qed


end
